theory Spec2Isabelle
  imports Complex_Main "HOL-Library.Sublist"
begin

section \<open>The numeric library the three scripts call\<close>

text \<open>
  The three scripts of \<^verbatim>\<open>DataAndCodeForExam\<close> are straight-line programs over
  \<^verbatim>\<open>numpy\<close>: \<^verbatim>\<open>np.genfromtxt\<close>, \<^verbatim>\<open>.shape\<close>, basic slicing
  (\<^verbatim>\<open>data[:,k]\<close>, \<^verbatim>\<open>a[0:n]\<close>), \<^verbatim>\<open>.astype(int)\<close> and \<^verbatim>\<open>print\<close>.
  This section models those library operations with the arguments the scripts pass and the
  defaults they leave alone; the next section is the scripts themselves, statement by
  statement.
\<close>

subsection \<open>Values, arrays and the state of a run\<close>

text \<open>
  A float64 is its exact value, an infinity or NaN (signed zero is not distinguished).
  An array element is a float64 (what \<^verbatim>\<open>genfromtxt\<close> produces) or an int64 (what
  \<^verbatim>\<open>astype(int)\<close> produces).
\<close>

datatype float64 = Finite rat | PInf | NInf | NaN

datatype scalar = F float64 | I int

fun is_float :: "scalar \<Rightarrow> bool" where
  "is_float (F _) = True"
| "is_float (I _) = False"

fun is_int :: "scalar \<Rightarrow> bool" where
  "is_int (F _) = False"
| "is_int (I _) = True"

text \<open>
  An \<^verbatim>\<open>ndarray\<close> does not hold its elements: it names a buffer of the heap
  (\<open>base\<close>), the position of its first element there (\<open>offset\<close>) and, for each
  axis, the extent and the stride, counted in elements (\<open>dims\<close>). Two arrays with the
  same \<open>base\<close> share storage.
\<close>

record ndarray =
  base :: nat
  offset :: nat
  dims :: "(nat \<times> nat) list"

definition shape :: "ndarray \<Rightarrow> nat list" where
  "shape a = map fst (dims a)"

text \<open>
  The exceptions a run can end with. \<^verbatim>\<open>FileNotFoundError\<close>, \<^verbatim>\<open>ValueError\<close> and
  \<^verbatim>\<open>IndexError\<close> are Python's; \<open>ReadError name\<close> stands for any other exception
  raised while the input file is opened, read or decoded (\<^verbatim>\<open>IsADirectoryError\<close>,
  \<^verbatim>\<open>PermissionError\<close>, \<^verbatim>\<open>UnicodeDecodeError\<close> and whatever else the system
  raises), kept by its name.
\<close>

datatype error = FileNotFoundError | ReadError string | ValueError | IndexError

text \<open>
  What \<^verbatim>\<open>print\<close> writes: a string, a shape tuple, or an array. For an array the
  model keeps the shape and the entries that appear on the console, in order, with
  \<open>Dots\<close> where numpy writes \<^verbatim>\<open>...\<close> for the entries it leaves out; how a number
  is formatted is not modelled.
\<close>

datatype shown = Item scalar | Dots

datatype pyval = Str string | Shape "nat list" | Arr "nat list" "shown list"

datatype event =
    EvOpen string
  | EvParse
  | EvSlice
  | EvAstype
  | EvPrint "pyval list"

text \<open>
  A file on disk is either text, the list of its decoded lines, or something that cannot
  be opened and read as text (a directory, a file without read permission, bytes that do
  not decode): then the attempt raises the exception named.
\<close>

datatype entry = Text "string list" | Unreadable string

text \<open>
  The state of a run: the files on disk, the heap of array buffers (a new buffer is
  appended, its address is its position) and the trace of what the run has done so far.
\<close>

record world =
  files :: "string \<rightharpoonup> entry"
  heap :: "scalar list list"
  trace :: "event list"

type_synonym 'a prog = "world \<Rightarrow> (error + 'a) \<times> world"

text \<open>Sequencing: an exception raised by the first statement ends the run, with the
  state as it was when it was raised.\<close>

definition bindE :: "'a prog \<Rightarrow> ('a \<Rightarrow> 'b prog) \<Rightarrow> 'b prog" where
  "bindE m f w = (case m w of (Inl e, w') \<Rightarrow> (Inl e, w') | (Inr x, w') \<Rightarrow> f x w')"

definition returnE :: "'a \<Rightarrow> 'a prog" where
  "returnE x w = (Inr x, w)"

definition log :: "event \<Rightarrow> world \<Rightarrow> world" where
  "log ev w = w\<lparr>trace := trace w @ [ev]\<rparr>"

definition alloc :: "scalar list \<Rightarrow> world \<Rightarrow> nat \<times> world" where
  "alloc cells w = (length (heap w), w\<lparr>heap := heap w @ [cells]\<rparr>)"

text \<open>The elements of an array, read through its strides in row-major order.\<close>

fun offsets :: "(nat \<times> nat) list \<Rightarrow> nat list" where
  "offsets [] = [0]"
| "offsets ((n, s) # ds) = concat (map (\<lambda>i. map (\<lambda>k. i * s + k) (offsets ds)) [0..<n])"

definition elems :: "scalar list list \<Rightarrow> ndarray \<Rightarrow> scalar list" where
  "elems h a = map (\<lambda>k. (h ! base a) ! (offset a + k)) (offsets (dims a))"

text \<open>The element at a multi-index: the strides give its place in the buffer.\<close>

definition item :: "scalar list list \<Rightarrow> ndarray \<Rightarrow> nat list \<Rightarrow> scalar" where
  "item h a idx =
     (h ! base a) ! (offset a + sum_list (map (\<lambda>(i, (n, s)). i * s) (zip idx (dims a))))"

text \<open>The kind of an event, without what it carries.\<close>

datatype step = Open | Parse | Slice | Astype | Print

fun step_of :: "event \<Rightarrow> step" where
  "step_of (EvOpen _) = Open"
| "step_of EvParse = Parse"
| "step_of EvSlice = Slice"
| "step_of EvAstype = Astype"
| "step_of (EvPrint _) = Print"

text \<open>The steps a run has added to the trace between two states.\<close>

definition steps :: "world \<Rightarrow> world \<Rightarrow> step list" where
  "steps w w' = map step_of (drop (length (trace w)) (trace w'))"

text \<open>What a trace has written to the console.\<close>

fun printed :: "event list \<Rightarrow> pyval list list" where
  "printed [] = []"
| "printed (EvPrint args # evs) = args # printed evs"
| "printed (_ # evs) = printed evs"

subsection \<open>\<^verbatim>\<open>np.genfromtxt\<close>\<close>

text \<open>
  The line splitter of \<^verbatim>\<open>genfromtxt\<close> (\<^verbatim>\<open>LineSplitter._delimited_splitter\<close>,
  with \<^verbatim>\<open>comments='#'\<close> and \<^verbatim>\<open>autostrip=False\<close>, the defaults):
  \<^verbatim>\<open>
    line = line.split(self.comments)[0]
    line = line.strip(" \r\n")
    if not line:
        return []
    return line.split(self.delimiter)
  \<close>
  With a delimiter character \<^verbatim>\<open>str.split\<close> cuts at every occurrence and keeps empty
  fields; with \<^verbatim>\<open>delimiter=None\<close> it cuts at runs of whitespace and drops empty
  fields.
\<close>

definition is_space :: "char \<Rightarrow> bool" where
  "is_space c = (of_char c \<in> {9, 10, 11, 12, 13, 28, 29, 30, 31, 32, 133, 160 :: nat})"

definition strip :: "string \<Rightarrow> string \<Rightarrow> string" where
  "strip cs s = rev (dropWhile (\<lambda>c. c \<in> set cs) (rev (dropWhile (\<lambda>c. c \<in> set cs) s)))"

fun split_on :: "char \<Rightarrow> string \<Rightarrow> string list" where
  "split_on d [] = [[]]"
| "split_on d (c # cs) =
     (if c = d then [] # split_on d cs
      else (case split_on d cs of [] \<Rightarrow> [[c]] | f # fs \<Rightarrow> (c # f) # fs))"

fun split_ws :: "string \<Rightarrow> string \<Rightarrow> string list" where
  "split_ws cur [] = (if cur = [] then [] else [rev cur])"
| "split_ws cur (c # cs) =
     (if is_space c then (if cur = [] then split_ws [] cs else rev cur # split_ws [] cs)
      else split_ws (c # cur) cs)"

definition clean :: "string \<Rightarrow> string" where
  "clean line = strip [CHR '' '', CHR 0x0D, CHR 0x0A] (takeWhile (\<lambda>c. c \<noteq> CHR ''#'') line)"

definition split_line :: "char option \<Rightarrow> string \<Rightarrow> string list" where
  "split_line delimiter line =
     (if clean line = [] then []
      else (case delimiter of None \<Rightarrow> split_ws [] (clean line)
                            | Some d \<Rightarrow> split_on d (clean line)))"

text \<open>
  Reading the rows: the first \<^verbatim>\<open>skip_header\<close> lines are dropped, lines that split
  into no field are skipped, the first remaining line fixes the number of columns, and
  every line with another number of fields is recorded as invalid. With
  \<^verbatim>\<open>invalid_raise=True\<close> (the default) any invalid line raises \<^verbatim>\<open>ValueError\<close>.
\<close>

definition split_rows :: "char option \<Rightarrow> nat \<Rightarrow> string list \<Rightarrow> string list list" where
  "split_rows delimiter skip_header lines =
     filter (\<lambda>values. values \<noteq> []) (map (split_line delimiter) (drop skip_header lines))"

definition nbcols :: "string list list \<Rightarrow> nat" where
  "nbcols rows = (case rows of [] \<Rightarrow> 0 | first_values # _ \<Rightarrow> length first_values)"

definition read_rows :: "char option \<Rightarrow> nat \<Rightarrow> string list \<Rightarrow> error + string list list" where
  "read_rows delimiter skip_header lines =
     (let rows = split_rows delimiter skip_header lines;
          invalid = filter (\<lambda>values. length values \<noteq> nbcols rows) rows
      in if invalid \<noteq> [] then Inl ValueError else Inr rows)"

text \<open>
  Converting a field (\<^verbatim>\<open>StringConverter._loose_call\<close>, \<^verbatim>\<open>loose=True\<close> being the
  default): the field goes through Python's \<^verbatim>\<open>float\<close>, and a field \<^verbatim>\<open>float\<close>
  rejects becomes NaN instead of an error:
  \<^verbatim>\<open>
    try:
        return self.func(value)
    except ValueError:
        return self.default
  \<close>
  Python's \<^verbatim>\<open>float\<close> itself is a parameter of the model (\<open>pyfloat\<close>, \<open>None\<close>
  where it raises \<^verbatim>\<open>ValueError\<close>).
\<close>

definition loose_call :: "(string \<Rightarrow> float64 option) \<Rightarrow> string \<Rightarrow> scalar" where
  "loose_call pyfloat v = (case pyfloat v of Some x \<Rightarrow> F x | None \<Rightarrow> F NaN)"

text \<open>\<^verbatim>\<open>np.squeeze\<close>: the axes of extent 1 are removed; the result is a view.\<close>

definition squeeze :: "ndarray \<Rightarrow> ndarray" where
  "squeeze a = a\<lparr>dims := filter (\<lambda>(n, s). n \<noteq> 1) (dims a)\<rparr>"

text \<open>
  \<^verbatim>\<open>np.genfromtxt(fname, delimiter=..., skip_header=...)\<close> with \<^verbatim>\<open>dtype=float\<close>:
  a missing file raises \<^verbatim>\<open>FileNotFoundError\<close>, a file that cannot be opened and read
  raises the exception of the system; otherwise the rows are read and converted, stored
  row-major in a new buffer as an array of shape \<open>(rows, columns)\<close> (shape \<open>(0,)\<close>
  when there is no row), and the result is squeezed.
\<close>

definition genfromtxt ::
  "(string \<Rightarrow> float64 option) \<Rightarrow> string \<Rightarrow> char option \<Rightarrow> nat \<Rightarrow> ndarray prog" where
  "genfromtxt pyfloat fname delimiter skip_header w =
     (case files w fname of
        None \<Rightarrow> (Inl FileNotFoundError, w)
      | Some (Unreadable name) \<Rightarrow> (Inl (ReadError name), w)
      | Some (Text lines) \<Rightarrow>
          (case read_rows delimiter skip_header lines of
             Inl e \<Rightarrow> (Inl e, log (EvOpen fname) w)
           | Inr rows \<Rightarrow>
               (let cells = concat (map (map (loose_call pyfloat)) rows);
                    (addr, w1) = alloc cells (log (EvOpen fname) w);
                    output = \<lparr>base = addr, offset = 0,
                              dims = (if rows = [] then [(0, 1)]
                                      else [(length rows, nbcols rows), (nbcols rows, 1)])\<rparr>
                in (Inr (squeeze output), log EvParse w1))))"

subsection \<open>Indexing, conversion and printing\<close>

text \<open>
  \<^verbatim>\<open>a[:,k]\<close>: basic indexing, so the result is a view on the same buffer. An array
  with fewer than two axes, or with no column \<open>k\<close>, raises \<^verbatim>\<open>IndexError\<close>.
\<close>

definition column :: "ndarray \<Rightarrow> nat \<Rightarrow> ndarray prog" where
  "column a k w =
     (case dims a of
        (n, s0) # (m, s1) # rest \<Rightarrow>
          if k < m
          then (Inr \<lparr>base = base a, offset = offset a + k * s1, dims = (n, s0) # rest\<rparr>,
                log EvSlice w)
          else (Inl IndexError, w)
      | _ \<Rightarrow> (Inl IndexError, w))"

text \<open>\<^verbatim>\<open>a[0:stop]\<close>: a view of the first \<open>stop\<close> entries along the first axis (all
  of them when there are fewer); a zero-dimensional array raises \<^verbatim>\<open>IndexError\<close>.\<close>

definition first_rows :: "ndarray \<Rightarrow> nat \<Rightarrow> ndarray prog" where
  "first_rows a stop w =
     (case dims a of
        [] \<Rightarrow> (Inl IndexError, w)
      | (n, s) # rest \<Rightarrow>
          (Inr \<lparr>base = base a, offset = offset a, dims = (min stop n, s) # rest\<rparr>,
           log EvSlice w))"

text \<open>
  \<^verbatim>\<open>a.astype(int)\<close>: every element is cast to int64 and the results are stored in
  a new contiguous buffer (\<^verbatim>\<open>copy=True\<close> is the default). The cast of a float64 is
  C's: truncation toward zero. For NaN, the infinities and values outside the int64 range
  C leaves the result open; no exception is raised, and the x86-64 builds give the least
  int64.
\<close>

definition trunc_toward_zero :: "rat \<Rightarrow> int" where
  "trunc_toward_zero q = (if 0 \<le> q then \<lfloor>q\<rfloor> else \<lceil>q\<rceil>)"

definition in_int64 :: "int \<Rightarrow> bool" where
  "in_int64 t = (- (2 ^ 63) \<le> t \<and> t < 2 ^ 63)"

fun to_int64 :: "scalar \<Rightarrow> scalar" where
  "to_int64 (F (Finite q)) =
     (if in_int64 (trunc_toward_zero q) then I (trunc_toward_zero q) else I (- (2 ^ 63)))"
| "to_int64 (F _) = I (- (2 ^ 63))"
| "to_int64 (I i) = I i"

fun c_dims :: "nat list \<Rightarrow> (nat \<times> nat) list" where
  "c_dims [] = []"
| "c_dims (n # ns) = (n, prod_list ns) # c_dims ns"

definition astype_int :: "ndarray \<Rightarrow> ndarray prog" where
  "astype_int a w =
     (let (addr, w1) = alloc (map to_int64 (elems (heap w) a)) w
      in (Inr \<lparr>base = addr, offset = 0, dims = c_dims (shape a)\<rparr>, log EvAstype w1))"

definition print :: "pyval list \<Rightarrow> unit prog" where
  "print args w = (Inr (), log (EvPrint args) w)"

text \<open>
  \<^verbatim>\<open>print(a)\<close> for an array goes through \<^verbatim>\<open>np.array2string\<close> with the default
  print options (\<^verbatim>\<open>threshold=1000\<close>, \<^verbatim>\<open>edgeitems=3\<close>): an array of more than 1000
  elements is summarised, and then along every axis longer than 6 only the first 3 and the
  last 3 entries are written, with \<^verbatim>\<open>...\<close> between them; a smaller array is written
  in full.
\<close>

fun shown_items :: "bool \<Rightarrow> nat list \<Rightarrow> scalar list \<Rightarrow> shown list" where
  "shown_items summary [] xs = map Item (take 1 xs)"
| "shown_items summary (n # ns) xs =
     (if summary \<and> 6 < n
      then concat (map (\<lambda>i. shown_items summary ns (take (prod_list ns) (drop (i * prod_list ns) xs)))
                    [0..<3])
           @ [Dots] @
           concat (map (\<lambda>i. shown_items summary ns (take (prod_list ns) (drop (i * prod_list ns) xs)))
                    [n - 3..<n])
      else concat (map (\<lambda>i. shown_items summary ns (take (prod_list ns) (drop (i * prod_list ns) xs)))
                    [0..<n]))"

definition array2string :: "nat list \<Rightarrow> scalar list \<Rightarrow> shown list" where
  "array2string shp xs = shown_items (1000 < prod_list shp) shp xs"

definition print_array :: "ndarray \<Rightarrow> unit prog" where
  "print_array a w = print [Arr (shape a) (array2string (shape a) (elems (heap w) a))] w"

section \<open>The three scripts\<close>

text \<open>
  \<^verbatim>\<open>DataReader_Problem4.1_LargestPopulation.py\<close>:
  \<^verbatim>\<open>
    data = np.genfromtxt('data_LargestPopulation.csv', delimiter = ',', skip_header=1)
    print(data.shape)
    year      = data[:,0]
    PopIndia  = data[:,1]
    PopChina  = data[:,2]
    print(year)
    print(PopIndia)
    print(PopChina)
  \<close>
  The run returns the variables the module has bound at its end.
\<close>

definition DataReader_Problem4_1 ::
  "(string \<Rightarrow> float64 option) \<Rightarrow> (ndarray \<times> ndarray \<times> ndarray \<times> ndarray) prog" where
  "DataReader_Problem4_1 pyfloat =
     bindE (genfromtxt pyfloat ''data_LargestPopulation.csv'' (Some CHR '','') 1) (\<lambda>data.
     bindE (print [Shape (shape data)]) (\<lambda>_.
     bindE (column data 0) (\<lambda>year.
     bindE (column data 1) (\<lambda>PopIndia.
     bindE (column data 2) (\<lambda>PopChina.
     bindE (print_array year) (\<lambda>_.
     bindE (print_array PopIndia) (\<lambda>_.
     bindE (print_array PopChina) (\<lambda>_.
     returnE (data, year, PopIndia, PopChina)))))))))"

text \<open>
  \<^verbatim>\<open>DataReader_Problem5.1_SignalDetection.py\<close>:
  \<^verbatim>\<open>
    data = np.genfromtxt('data_SignalDetection.csv', delimiter = ',', skip_header=1)
    print("  Shape of data: ", data.shape)
    index = data[:,0].astype(int)
    P     = data[:,1]
    R     = data[:,2]
    freq  = data[:,3]
    type  = data[:,4].astype(int)
    print(index[0:3])
    print(P[0:3])
    print(R[0:3])
    print(freq[0:3])
    print(type[0:3])
  \<close>
\<close>

definition DataReader_Problem5_1 ::
  "(string \<Rightarrow> float64 option) \<Rightarrow>
   (ndarray \<times> ndarray \<times> ndarray \<times> ndarray \<times> ndarray \<times> ndarray) prog" where
  "DataReader_Problem5_1 pyfloat =
     bindE (genfromtxt pyfloat ''data_SignalDetection.csv'' (Some CHR '','') 1) (\<lambda>data.
     bindE (print [Str ''  Shape of data: '', Shape (shape data)]) (\<lambda>_.
     bindE (bindE (column data 0) astype_int) (\<lambda>index.
     bindE (column data 1) (\<lambda>P.
     bindE (column data 2) (\<lambda>R.
     bindE (column data 3) (\<lambda>freq.
     bindE (bindE (column data 4) astype_int) (\<lambda>type.
     bindE (bindE (first_rows index 3) print_array) (\<lambda>_.
     bindE (bindE (first_rows P 3) print_array) (\<lambda>_.
     bindE (bindE (first_rows R 3) print_array) (\<lambda>_.
     bindE (bindE (first_rows freq 3) print_array) (\<lambda>_.
     bindE (bindE (first_rows type 3) print_array) (\<lambda>_.
     returnE (data, index, P, R, freq, type)))))))))))))"

text \<open>
  \<^verbatim>\<open>DataReader_Problem5.2_DecayTimes.py\<close>:
  \<^verbatim>\<open>
    data = np.genfromtxt('data_DecayTimes.csv')
    print(data.shape)
    print(data[0:10])
  \<close>
  No \<^verbatim>\<open>delimiter\<close> and no \<^verbatim>\<open>skip_header\<close> are passed: the defaults are
  \<^verbatim>\<open>None\<close> (whitespace) and 0.
\<close>

definition DataReader_Problem5_2 :: "(string \<Rightarrow> float64 option) \<Rightarrow> ndarray prog" where
  "DataReader_Problem5_2 pyfloat =
     bindE (genfromtxt pyfloat ''data_DecayTimes.csv'' None 0) (\<lambda>data.
     bindE (print [Shape (shape data)]) (\<lambda>_.
     bindE (bindE (first_rows data 10) print_array) (\<lambda>_.
     returnE data)))"



text \<open>
  A program leaves what exists alone when, from every state and however it ends, the
  buffers of the heap it started with are still there with their contents (the heap has
  only grown at its end) and the files on disk are the same.
\<close>

definition frame :: "'a prog \<Rightarrow> bool" where
  "frame m = (\<forall>w r w'. m w = (r, w') \<longrightarrow> prefix (heap w) (heap w') \<and> files w' = files w)"

text \<open>Joining fields with a delimiter between them (Python's \<^verbatim>\<open>d.join(fields)\<close>),
  to say what splitting at a delimiter means.\<close>

fun join_fields :: "char \<Rightarrow> string list \<Rightarrow> string" where
  "join_fields d [] = []"
| "join_fields d [f] = f"
| "join_fields d (f # g # fs) = f @ d # join_fields d (g # fs)"

section \<open>Input files and what they hold\<close>

text \<open>
  A file has \<open>k\<close> columns for a script when, read with that script's delimiter and
  header lines, it has at least two data lines and every data line splits into exactly
  \<open>k\<close> fields. The cells of a loaded table are the converted fields, row after row;
  a column of the table takes field \<open>k\<close> of every row.
\<close>

definition well_formed :: "char option \<Rightarrow> nat \<Rightarrow> nat \<Rightarrow> string list \<Rightarrow> bool" where
  "well_formed delimiter skip_header k lines =
     (2 \<le> length (split_rows delimiter skip_header lines) \<and>
      list_all (\<lambda>values. length values = k) (split_rows delimiter skip_header lines))"

definition table_cells :: "(string \<Rightarrow> float64 option) \<Rightarrow> string list list \<Rightarrow> scalar list" where
  "table_cells pyfloat rows = concat (map (map (loose_call pyfloat)) rows)"

definition table_column ::
  "(string \<Rightarrow> float64 option) \<Rightarrow> string list list \<Rightarrow> nat \<Rightarrow> scalar list" where
  "table_column pyfloat rows k = map (\<lambda>values. loose_call pyfloat (values ! k)) rows"

section \<open>Example inputs\<close>

text \<open>
  Python's \<^verbatim>\<open>float\<close> on the fields of the example files below: a string of decimal
  digits is the number it writes, \<^verbatim>\<open>1.5\<close> and \<^verbatim>\<open>-2.75\<close> are those numbers (all of
  them exact as float64), and a field with a letter or a comma in it raises
  \<^verbatim>\<open>ValueError\<close>. The example files hold no other kind of field.
\<close>

definition example_float :: "string \<Rightarrow> float64 option" where
  "example_float s =
     (if s = ''1.5'' then Some (Finite (3 / 2))
      else if s = ''-2.75'' then Some (Finite (- 11 / 4))
      else if s \<noteq> [] \<and> list_all (\<lambda>c. c \<in> set ''0123456789'') s
      then Some (Finite (of_nat (foldl (\<lambda>a c. 10 * a + (of_char c - 48)) 0 s)))
      else None)"

definition disk :: "(string \<times> string list) list \<Rightarrow> world" where
  "disk fs = \<lparr>files = map_of (map (\<lambda>(name, lines). (name, Text lines)) fs),
             heap = [], trace = []\<rparr>"

definition population_file :: "string list" where
  "population_file =
     [''Year,PopIndia,PopChina'',
      ''1960,445,654'', ''1961,456,655'', ''1962,467,664'', ''1963,479,682'',
      ''1964,491,698'', ''1965,503,715'', ''1966,515,735'', ''1967,527,754'',
      ''1968,540,774'', ''1969,553,796'', ''1970,567,818'', ''1971,581,841'']"

definition signal_file :: "string list" where
  "signal_file =
     [''Index,P,R,Freq,Type'',
      ''0,3,7,11,1'', ''1,4,8,12,0'', ''2,5,9,13,1'', ''3,6,10,14,0'']"

definition decay_file :: "string list" where
  "decay_file = [''12'', ''7'', ''31'', ''2'', ''19'', ''5'', ''8'', ''44'', ''3'', ''10'', ''27'', ''6'']"

definition good_disk :: world where
  "good_disk = disk [(''data_LargestPopulation.csv'', population_file),
                     (''data_SignalDetection.csv'', signal_file),
                     (''data_DecayTimes.csv'', decay_file)]"

text \<open>A signal file with a fraction, a negative fraction and a field that is no number
  in the columns that Problem 5.1 converts to integers.\<close>

definition mixed_signal_file :: "string list" where
  "mixed_signal_file =
     [''Index,P,R,Freq,Type'',
      ''1.5,3,7,11,-2.75'', ''x,4,8,12,1'', ''2,5,9,13,0'']"

definition mixed_disk :: world where
  "mixed_disk = disk [(''data_SignalDetection.csv'', mixed_signal_file)]"

text \<open>Malformed population files: one column too few, fields that are no numbers,
  and a data line with a field missing.\<close>

definition two_column_file :: "string list" where
  "two_column_file = [''Year,PopIndia'', ''1960,445'', ''1961,456'']"

definition text_file :: "string list" where
  "text_file = [''Year,PopIndia,PopChina'', ''a,b,c'', ''d,e,f'']"

definition ragged_file :: "string list" where
  "ragged_file = [''Year,PopIndia,PopChina'', ''1960,445,654'', ''1961,456'']"

definition comma_decay_file :: "string list" where
  "comma_decay_file = [''1,2'', ''3,4'']"

definition one_row_file :: "string list" where
  "one_row_file = [''Year,PopIndia,PopChina'', ''1960,445,654'']"

text \<open>A second state with the same three input files, another file beside them, a
  buffer already on the heap and an earlier line on the console.\<close>

definition other_disk :: world where
  "other_disk =
     \<lparr>files = map_of [(''notes.txt'', Text [''remember the exam'']),
                       (''data_LargestPopulation.csv'', Text population_file),
                       (''data_SignalDetection.csv'', Text signal_file),
                       (''data_DecayTimes.csv'', Text decay_file)],
      heap = [[I 7, I 8]],
      trace = [EvPrint [Str ''earlier'']]\<rparr>"

text \<open>A state where none of the three input files can be read: one is a directory, one
  lacks read permission, one holds bytes that do not decode.\<close>

definition broken_disk :: world where
  "broken_disk =
     \<lparr>files = map_of [(''data_LargestPopulation.csv'', Unreadable ''IsADirectoryError''),
                       (''data_SignalDetection.csv'', Unreadable ''PermissionError''),
                       (''data_DecayTimes.csv'', Unreadable ''UnicodeDecodeError'')],
      heap = [], trace = []\<rparr>"

text \<open>A signal file whose first entry number is \<open>10\<^sup>1\<^sup>9\<close>, exact as a float64 and
  beyond the int64 range, and a population file with 1001 data lines.\<close>

definition huge_signal_file :: "string list" where
  "huge_signal_file =
     [''Index,P,R,Freq,Type'',
      ''10000000000000000000,3,7,11,1'', ''1,4,8,12,0'']"

definition long_population_file :: "string list" where
  "long_population_file = ''Year,PopIndia,PopChina'' # replicate 1001 ''1960,445,654''"

section \<open>Basic facts\<close>

lemma bindE_Inr: "m w = (Inr x, w') \<Longrightarrow> bindE m f w = f x w'"
  by (simp add: bindE_def)


lemma concat_singletons: "concat (map (\<lambda>i. [f i]) xs) = map f xs"
  by (induction xs) simp_all

lemma nth_upt_drop_take:
  "b \<le> length xs \<Longrightarrow> map ((!) xs) [a..<b] = drop a (take b xs)"
  by (rule nth_equalityI) (simp_all add: min_def)

lemma items_upt:
  assumes "b \<le> length xs"
  shows "concat (map (\<lambda>i. map Item (take (Suc 0) (take (Suc 0) (drop i xs)))) [a..<b])
         = map Item (drop a (take b xs))"
proof -
  have "map (\<lambda>i. map Item (take (Suc 0) (take (Suc 0) (drop i xs)))) [a..<b]
      = map (\<lambda>i. [Item (xs ! i)]) [a..<b]"
  proof (rule map_cong [OF refl])
    fix i assume "i \<in> set [a..<b]"
    with assms have "i < length xs" by simp
    then have "drop i xs = xs ! i # drop (Suc i) xs" by (simp add: Cons_nth_drop_Suc)
    then show "map Item (take (Suc 0) (take (Suc 0) (drop i xs))) = [Item (xs ! i)]" by simp
  qed
  then have "concat (map (\<lambda>i. map Item (take (Suc 0) (take (Suc 0) (drop i xs)))) [a..<b])
      = concat (map (\<lambda>i. [Item (xs ! i)]) [a..<b])"
    by (simp only:)
  also have "\<dots> = map (\<lambda>i. Item (xs ! i)) [a..<b]" by (rule concat_singletons)
  also have "\<dots> = map Item (map ((!) xs) [a..<b])" by simp
  also from assms have "map ((!) xs) [a..<b] = drop a (take b xs)"
    by (rule nth_upt_drop_take)
  finally show ?thesis .
qed

lemma array2string_1d:
  assumes "length xs = n"
  shows "array2string [n] xs =
     (if 1000 < n then map Item (take 3 xs) @ [Dots] @ map Item (drop (n - 3) xs)
      else map Item xs)"
proof -
  from assms have a: "concat (map (\<lambda>i. map Item (take (Suc 0) (take (Suc 0) (drop i xs)))) [0..<n])
      = map Item xs"
    using items_upt [of n xs 0] by simp
  have b: "1000 < n \<Longrightarrow>
      concat (map (\<lambda>i. map Item (take (Suc 0) (take (Suc 0) (drop i xs)))) [0..<3])
      = map Item (take 3 xs)"
    using items_upt [of 3 xs 0] assms by simp
  from assms have c: "concat (map (\<lambda>i. map Item (take (Suc 0) (take (Suc 0) (drop i xs)))) [n - 3..<n])
      = map Item (drop (n - 3) xs)"
    using items_upt [of n xs "n - 3"] by simp
  show ?thesis
    using a b c by (simp add: array2string_def del: upt_Suc)
qed

lemma array2string_small:
  "length xs = n \<Longrightarrow> n \<le> 1000 \<Longrightarrow> array2string [n] xs = map Item xs"
  by (simp add: array2string_1d)

lemma offsets_1d: "offsets [(n, s)] = map (\<lambda>i. i * s) [0..<n]"
  by (simp add: concat_singletons)

lemma nth_concat_rows:
  "list_all (\<lambda>v. length v = m) rows \<Longrightarrow> r < length rows \<Longrightarrow> k < m \<Longrightarrow>
   concat rows ! (r * m + k) = rows ! r ! k"
proof (induction rows arbitrary: r)
  case Nil
  then show ?case by simp
next
  case (Cons v rows)
  show ?case
  proof (cases r)
    case 0
    with Cons.prems show ?thesis by (simp add: nth_append)
  next
    case (Suc r')
    with Cons.prems have "concat rows ! (r' * m + k) = rows ! r' ! k"
      by (intro Cons.IH) simp_all
    with Suc Cons.prems show ?thesis by (simp add: nth_append)
  qed
qed

lemma length_concat_rows:
  "list_all (\<lambda>v. length v = m) rows \<Longrightarrow> length (concat rows) = length rows * m"
  by (induction rows) simp_all

lemma column_of_cells:
  assumes "list_all (\<lambda>v. length v = m) rows" "k < m"
  shows "map (\<lambda>i. concat (map (map g) rows) ! (k + i * m)) [0..<length rows]
         = map (\<lambda>v. g (v ! k)) rows"
proof (rule nth_equalityI)
  show "length (map (\<lambda>i. concat (map (map g) rows) ! (k + i * m)) [0..<length rows])
        = length (map (\<lambda>v. g (v ! k)) rows)" by simp
next
  fix i assume "i < length (map (\<lambda>i. concat (map (map g) rows) ! (k + i * m)) [0..<length rows])"
  then have i: "i < length rows" by simp
  from assms(1) have all: "list_all (\<lambda>v. length v = m) (map (map g) rows)"
    by (simp add: list_all_iff)
  from i have "concat (map (map g) rows) ! (i * m + k) = map (map g) rows ! i ! k"
    using nth_concat_rows [OF all _ assms(2), of i] by simp
  also have "\<dots> = g (rows ! i ! k)"
    using i assms by (simp add: list_all_length)
  finally show "map (\<lambda>i. concat (map (map g) rows) ! (k + i * m)) [0..<length rows] ! i
        = map (\<lambda>v. g (v ! k)) rows ! i"
    using i by (simp add: add.commute)
qed

lemma well_formed_read_rows:
  assumes "well_formed d sk k lines"
  shows "read_rows d sk lines = Inr (split_rows d sk lines)"
    and "nbcols (split_rows d sk lines) = k"
proof -
  let ?rows = "split_rows d sk lines"
  from assms have len: "2 \<le> length ?rows" and all: "list_all (\<lambda>v. length v = k) ?rows"
    by (simp_all add: well_formed_def)
  from len obtain v vs where rows: "?rows = v # vs" by (cases ?rows) auto
  with all show nb: "nbcols ?rows = k" by (simp add: nbcols_def)
  from all have "filter (\<lambda>v. length v \<noteq> k) ?rows = []"
    by (simp add: list_all_iff filter_empty_conv)
  with nb show "read_rows d sk lines = Inr ?rows" by (simp add: read_rows_def Let_def)
qed

lemma genfromtxt_table:
  assumes f: "files w fname = Some (Text lines)" and wf: "well_formed d sk k lines" and k: "2 \<le> k"
  shows "genfromtxt pf fname d sk w =
    (Inr \<lparr>base = length (heap w), offset = 0,
          dims = [(length (split_rows d sk lines), k), (k, 1)]\<rparr>,
     w\<lparr>heap := heap w @ [table_cells pf (split_rows d sk lines)],
       trace := trace w @ [EvOpen fname, EvParse]\<rparr>)"
proof -
  from wf have len: "2 \<le> length (split_rows d sk lines)" by (simp add: well_formed_def)
  then have ne: "split_rows d sk lines \<noteq> []" by auto
  show ?thesis
    using f len ne k well_formed_read_rows [OF wf]
    by (simp add: genfromtxt_def alloc_def log_def squeeze_def table_cells_def)
qed

lemma upt_min_take: "[0..<min j n] = take j [0..<n]"
  by (cases "j \<le> n") (simp_all add: min_def)

lemma elems_column:
  assumes "list_all (\<lambda>v. length v = m) rows" "k < m" "b = length h"
  shows "elems (h @ [table_cells pf rows] @ h') \<lparr>base = b, offset = k, dims = [(min j (length rows), m)]\<rparr>
         = take j (table_column pf rows k)"
proof -
  have "map (\<lambda>i. table_cells pf rows ! (k + i * m)) [0..<min j (length rows)]
      = take j (map (\<lambda>i. table_cells pf rows ! (k + i * m)) [0..<length rows])"
    by (simp add: upt_min_take take_map)
  with column_of_cells [OF assms(1,2), of "loose_call pf"] assms(3)
  show ?thesis
    by (simp add: elems_def offsets_1d table_cells_def table_column_def o_def)
qed

lemma elems_contiguous:
  assumes "b = length h"
  shows "elems (h @ [xs] @ h') \<lparr>base = b, offset = 0, dims = [(min j (length xs), 1)]\<rparr> = take j xs"
proof -
  have "map (\<lambda>i. xs ! i) [0..<min j (length xs)] = take j (map (\<lambda>i. xs ! i) [0..<length xs])"
    by (simp add: upt_min_take take_map)
  with assms show ?thesis
    by (simp add: elems_def offsets_1d map_nth)
qed

lemma run41:
  assumes f: "files w ''data_LargestPopulation.csv'' = Some (Text lines)"
    and wf: "well_formed (Some CHR '','') 1 k lines" and k: "3 \<le> k"
    and rows: "rows = split_rows (Some CHR '','') 1 lines"
  shows "DataReader_Problem4_1 pf w =
    (Inr (\<lparr>base = length (heap w), offset = 0, dims = [(length rows, k), (k, 1)]\<rparr>,
          \<lparr>base = length (heap w), offset = 0, dims = [(length rows, k)]\<rparr>,
          \<lparr>base = length (heap w), offset = 1, dims = [(length rows, k)]\<rparr>,
          \<lparr>base = length (heap w), offset = 2, dims = [(length rows, k)]\<rparr>),
     w\<lparr>heap := heap w @ [table_cells pf rows],
       trace := trace w @
         [EvOpen ''data_LargestPopulation.csv'', EvParse,
          EvPrint [Shape [length rows, k]],
          EvSlice, EvSlice, EvSlice,
          EvPrint [Arr [length rows] (array2string [length rows] (table_column pf rows 0))],
          EvPrint [Arr [length rows] (array2string [length rows] (table_column pf rows 1))],
          EvPrint [Arr [length rows] (array2string [length rows] (table_column pf rows 2))]]\<rparr>)"
proof -
  from wf rows have all: "list_all (\<lambda>v. length v = k) rows" by (simp add: well_formed_def)
  have e: "\<And>c. c < k \<Longrightarrow> elems (heap w @ [table_cells pf rows])
      \<lparr>base = length (heap w), offset = c, dims = [(length rows, k)]\<rparr> = table_column pf rows c"
    using elems_column [OF all, of _ "length (heap w)" "heap w" pf "[]" "length rows"]
    by (simp add: table_column_def)
  have g: "genfromtxt pf ''data_LargestPopulation.csv'' (Some CHR '','') (Suc 0) w =
    (Inr \<lparr>base = length (heap w), offset = 0, dims = [(length rows, k), (k, 1)]\<rparr>,
     w\<lparr>heap := heap w @ [table_cells pf rows],
       trace := trace w @ [EvOpen ''data_LargestPopulation.csv'', EvParse]\<rparr>)"
    using genfromtxt_table [OF f wf, of pf] rows k by simp
  show ?thesis
    unfolding DataReader_Problem4_1_def using k
    by (simp add: bindE_def g print_def print_array_def
        column_def log_def returnE_def shape_def e)
qed

lemma run51:
  assumes f: "files w ''data_SignalDetection.csv'' = Some (Text lines)"
    and wf: "well_formed (Some CHR '','') 1 k lines" and k: "5 \<le> k"
    and rows: "rows = split_rows (Some CHR '','') 1 lines"
  shows "DataReader_Problem5_1 pf w =
    (Inr (\<lparr>base = length (heap w), offset = 0, dims = [(length rows, k), (k, 1)]\<rparr>,
          \<lparr>base = length (heap w) + 1, offset = 0, dims = [(length rows, 1)]\<rparr>,
          \<lparr>base = length (heap w), offset = 1, dims = [(length rows, k)]\<rparr>,
          \<lparr>base = length (heap w), offset = 2, dims = [(length rows, k)]\<rparr>,
          \<lparr>base = length (heap w), offset = 3, dims = [(length rows, k)]\<rparr>,
          \<lparr>base = length (heap w) + 2, offset = 0, dims = [(length rows, 1)]\<rparr>),
     w\<lparr>heap := heap w @ [table_cells pf rows,
                             map to_int64 (table_column pf rows 0),
                             map to_int64 (table_column pf rows 4)],
       trace := trace w @
         [EvOpen ''data_SignalDetection.csv'', EvParse,
          EvPrint [Str ''  Shape of data: '', Shape [length rows, k]],
          EvSlice, EvAstype, EvSlice, EvSlice, EvSlice, EvSlice, EvAstype,
          EvSlice, EvPrint [Arr [min 3 (length rows)] (map Item (take 3 (map to_int64 (table_column pf rows 0))))],
          EvSlice, EvPrint [Arr [min 3 (length rows)] (map Item (take 3 (table_column pf rows 1)))],
          EvSlice, EvPrint [Arr [min 3 (length rows)] (map Item (take 3 (table_column pf rows 2)))],
          EvSlice, EvPrint [Arr [min 3 (length rows)] (map Item (take 3 (table_column pf rows 3)))],
          EvSlice, EvPrint [Arr [min 3 (length rows)] (map Item (take 3 (map to_int64 (table_column pf rows 4))))]]\<rparr>)"
proof -
  let ?h = "heap w" and ?c = "table_cells pf rows"
  let ?i0 = "map to_int64 (table_column pf rows 0)" and ?i4 = "map to_int64 (table_column pf rows 4)"
  from wf rows have all: "list_all (\<lambda>v. length v = k) rows" by (simp add: well_formed_def)
  have e0: "\<And>c h'. c < k \<Longrightarrow> elems (?h @ ?c # h')
      \<lparr>base = length ?h, offset = c, dims = [(length rows, k)]\<rparr> = table_column pf rows c"
    using elems_column [OF all, of _ "length ?h" ?h pf _ "length rows"]
    by (simp add: table_column_def)
  have e3: "\<And>c h'. c < k \<Longrightarrow> elems (?h @ ?c # h')
      \<lparr>base = length ?h, offset = c, dims = [(min 3 (length rows), k)]\<rparr> = take 3 (table_column pf rows c)"
    using elems_column [OF all, of _ "length ?h" ?h pf _ 3] by simp
  have i0: "\<And>h'. elems (?h @ ?c # ?i0 # h')
      \<lparr>base = Suc (length ?h), offset = 0, dims = [(min 3 (length rows), Suc 0)]\<rparr> = take 3 ?i0"
    using elems_contiguous [of "Suc (length ?h)" "?h @ [?c]" ?i0 _ 3]
    by (simp add: table_column_def)
  have i4: "elems (?h @ [?c, ?i0, ?i4])
      \<lparr>base = Suc (Suc (length ?h)), offset = 0, dims = [(min 3 (length rows), Suc 0)]\<rparr> = take 3 ?i4"
    using elems_contiguous [of "Suc (Suc (length ?h))" "?h @ [?c, ?i0]" ?i4 "[]" 3]
    by (simp add: table_column_def)
  have g: "genfromtxt pf ''data_SignalDetection.csv'' (Some CHR '','') (Suc 0) w =
    (Inr \<lparr>base = length (heap w), offset = 0, dims = [(length rows, k), (k, 1)]\<rparr>,
     w\<lparr>heap := heap w @ [table_cells pf rows],
       trace := trace w @ [EvOpen ''data_SignalDetection.csv'', EvParse]\<rparr>)"
    using genfromtxt_table [OF f wf, of pf] rows k by simp
  have a3: "\<And>c. array2string [min 3 (length rows)] (take 3 (table_column pf rows c))
      = map Item (take 3 (table_column pf rows c))"
    by (rule array2string_small) (simp_all add: table_column_def min.commute)
  have b3: "\<And>c. array2string [min 3 (length rows)] (take 3 (map to_int64 (table_column pf rows c)))
      = map Item (take 3 (map to_int64 (table_column pf rows c)))"
    by (rule array2string_small) (simp_all add: table_column_def min.commute)
  show ?thesis
    unfolding DataReader_Problem5_1_def using k
    by (simp add: bindE_def g print_def print_array_def first_rows_def astype_int_def alloc_def
        column_def log_def returnE_def shape_def e0 e3 i0 i4 a3 b3)
qed


lemma block_offsets: "map (\<lambda>j. n * k + j) [0..<k] = [n * k..<n * k + k]"
  using map_add_upt [of "n * k" k] by (simp add: add.commute)

lemma offsets_2d: "offsets [(n, k), (k, Suc 0)] = [0..<n * k]"
proof (induction n)
  case 0
  then show ?case by simp
next
  case (Suc n)
  have "[0..<n * k + k] = [0..<n * k] @ [n * k..<n * k + k]"
    by (rule upt_add_eq_append) simp
  with Suc show ?case
    by (simp add: concat_singletons block_offsets add.commute)
qed

lemma elems_table:
  assumes "list_all (\<lambda>v. length v = k) rows" "b = length h"
  shows "elems (h @ [table_cells pf rows] @ h') \<lparr>base = b, offset = 0, dims = [(length rows, k), (k, 1)]\<rparr>
         = table_cells pf rows"
proof -
  from assms(1) have "list_all (\<lambda>v. length v = k) (map (map (loose_call pf)) rows)"
    by (simp add: list_all_iff)
  then have "length (table_cells pf rows) = length rows * k"
    using length_concat_rows [of k "map (map (loose_call pf)) rows"] by (simp add: table_cells_def)
  with assms(2) show ?thesis
    using map_nth [of "table_cells pf rows"] by (simp add: elems_def offsets_2d del: offsets.simps)
qed

lemma table_cells_float: "list_all is_float (table_cells pf rows)"
  by (auto simp: table_cells_def loose_call_def list_all_iff split: option.splits entry.splits)

lemma genfromtxt_vector:
  assumes f: "files w fname = Some (Text lines)" and wf: "well_formed d sk 1 lines"
  shows "genfromtxt pf fname d sk w =
    (Inr \<lparr>base = length (heap w), offset = 0, dims = [(length (split_rows d sk lines), 1)]\<rparr>,
     w\<lparr>heap := heap w @ [table_cells pf (split_rows d sk lines)],
       trace := trace w @ [EvOpen fname, EvParse]\<rparr>)"
proof -
  from wf have len: "2 \<le> length (split_rows d sk lines)" by (simp add: well_formed_def)
  then have ne: "split_rows d sk lines \<noteq> []" by auto
  show ?thesis
    using f len ne well_formed_read_rows [OF wf]
    by (simp add: genfromtxt_def alloc_def log_def squeeze_def table_cells_def)
qed

lemma run52:
  assumes f: "files w ''data_DecayTimes.csv'' = Some (Text lines)"
    and wf: "well_formed None 0 1 lines"
    and rows: "rows = split_rows None 0 lines"
  shows "DataReader_Problem5_2 pf w =
    (Inr \<lparr>base = length (heap w), offset = 0, dims = [(length rows, 1)]\<rparr>,
     w\<lparr>heap := heap w @ [table_cells pf rows],
       trace := trace w @
         [EvOpen ''data_DecayTimes.csv'', EvParse,
          EvPrint [Shape [length rows]],
          EvSlice,
          EvPrint [Arr [min 10 (length rows)] (map Item (take 10 (table_column pf rows 0)))]]\<rparr>)"
proof -
  from wf rows have all: "list_all (\<lambda>v. length v = 1) rows" by (simp add: well_formed_def)
  have e: "elems (heap w @ [table_cells pf rows])
      \<lparr>base = length (heap w), offset = 0, dims = [(min 10 (length rows), Suc 0)]\<rparr>
      = take 10 (table_column pf rows 0)"
    using elems_column [OF all, of 0 "length (heap w)" "heap w" pf "[]" 10] by simp
  have a10: "array2string [min 10 (length rows)] (take 10 (table_column pf rows 0))
      = map Item (take 10 (table_column pf rows 0))"
    by (rule array2string_small) (simp_all add: table_column_def min.commute)
  note g = genfromtxt_vector [OF f wf, of pf, folded rows]
  show ?thesis
    unfolding DataReader_Problem5_2_def
    by (simp add: bindE_def g print_def print_array_def first_rows_def
        log_def returnE_def shape_def e a10)
qed

lemma table_column_single:
  "list_all (\<lambda>v. length v = 1) rows \<Longrightarrow> table_cells pf rows = table_column pf rows 0"
  by (induction rows) (auto simp: table_cells_def table_column_def length_Suc_conv)



lemmas line_defs = split_rows_def split_line_def clean_def strip_def is_space_def

lemmas run_defs = bindE_def returnE_def genfromtxt_def read_rows_def nbcols_def loose_call_def
  squeeze_def alloc_def log_def column_def first_rows_def astype_int_def print_def
  print_array_def array2string_def elems_def shape_def

lemmas example_defs = example_float_def disk_def good_disk_def population_file_def
  signal_file_def decay_file_def mixed_signal_file_def mixed_disk_def
  two_column_file_def text_file_def ragged_file_def comma_decay_file_def one_row_file_def
  other_disk_def broken_disk_def huge_signal_file_def

lemma good_disk_files:
  "files good_disk ''data_LargestPopulation.csv'' = Some (Text population_file)"
  "files good_disk ''data_SignalDetection.csv'' = Some (Text signal_file)"
  "files good_disk ''data_DecayTimes.csv'' = Some (Text decay_file)"
  by (simp_all add: good_disk_def disk_def)

lemma example_files_well_formed:
  "well_formed (Some CHR '','') 1 3 population_file"
  "well_formed (Some CHR '','') 1 5 signal_file"
  "well_formed None 0 1 decay_file"
  by (simp_all add: well_formed_def line_defs population_file_def signal_file_def decay_file_def)

lemma example_files_rows:
  "length (split_rows (Some CHR '','') 1 population_file) = 12"
  "length (split_rows (Some CHR '','') 1 signal_file) = 4"
  "length (split_rows None 0 decay_file) = 12"
  by (simp_all add: line_defs population_file_def signal_file_def decay_file_def)

section \<open>How a run ends\<close>

lemma read_rows_Inr:
  assumes "read_rows d sk lines = Inr rows"
  shows "rows = split_rows d sk lines" and "list_all (\<lambda>v. length v = nbcols rows) rows"
proof -
  from assms show r: "rows = split_rows d sk lines"
    by (simp add: read_rows_def Let_def split: if_splits)
  from assms r have "filter (\<lambda>v. length v \<noteq> nbcols rows) rows = []"
    by (simp add: read_rows_def Let_def split: if_splits)
  then show "list_all (\<lambda>v. length v = nbcols rows) rows"
    by (simp add: filter_empty_conv list_all_iff)
qed

lemma read_rows_Inl: "read_rows d sk lines = Inl e \<Longrightarrow> e = ValueError"
  by (simp add: read_rows_def Let_def split: if_splits)

lemma genfromtxt_missing:
  "files w fname = None \<Longrightarrow> genfromtxt pf fname d sk w = (Inl FileNotFoundError, w)"
  by (simp add: genfromtxt_def)

lemma genfromtxt_unreadable:
  "files w fname = Some (Unreadable name) \<Longrightarrow>
   genfromtxt pf fname d sk w = (Inl (ReadError name), w)"
  by (simp add: genfromtxt_def)

lemma genfromtxt_invalid:
  "files w fname = Some (Text lines) \<Longrightarrow> read_rows d sk lines = Inl e \<Longrightarrow>
   genfromtxt pf fname d sk w = (Inl e, w\<lparr>trace := trace w @ [EvOpen fname]\<rparr>)"
  by (simp add: genfromtxt_def log_def)

lemma genfromtxt_loaded:
  "files w fname = Some (Text lines) \<Longrightarrow> read_rows d sk lines = Inr rows \<Longrightarrow>
   genfromtxt pf fname d sk w =
    (Inr \<lparr>base = length (heap w), offset = 0,
          dims = filter (\<lambda>(n, s). n \<noteq> 1)
                   (if rows = [] then [(0, 1)]
                    else [(length rows, nbcols rows), (nbcols rows, 1)])\<rparr>,
     w\<lparr>heap := heap w @ [table_cells pf rows],
       trace := trace w @ [EvOpen fname, EvParse]\<rparr>)"
  by (simp add: genfromtxt_def alloc_def log_def squeeze_def table_cells_def)

lemma outcome41:
  "map_sum id (\<lambda>_. ()) (fst (DataReader_Problem4_1 pf w)) =
     (case files w ''data_LargestPopulation.csv'' of
        None \<Rightarrow> Inl FileNotFoundError
      | Some (Unreadable name) \<Rightarrow> Inl (ReadError name)
      | Some (Text lines) \<Rightarrow>
          (case read_rows (Some CHR '','') 1 lines of
             Inl e \<Rightarrow> Inl ValueError
           | Inr rows \<Rightarrow>
               if 2 \<le> length rows \<and> 3 \<le> nbcols rows then Inr () else Inl IndexError))"
proof (cases "files w ''data_LargestPopulation.csv''")
  case None
  then show ?thesis
    by (simp add: DataReader_Problem4_1_def bindE_def genfromtxt_missing)
next
  case (Some entry)
  show ?thesis
  proof (cases entry)
    case (Unreadable name)
    with Some show ?thesis
      by (simp add: DataReader_Problem4_1_def bindE_def genfromtxt_unreadable)
  next
    case (Text lines)
    with Some have f: "files w ''data_LargestPopulation.csv'' = Some (Text lines)" by simp
  show ?thesis
  proof (cases "read_rows (Some CHR '','') (Suc 0) lines")
    case (Inl e)
    with f read_rows_Inl [OF Inl] show ?thesis
      by (simp add: DataReader_Problem4_1_def bindE_def genfromtxt_invalid)
  next
    case (Inr rows)
    note g = genfromtxt_loaded [OF f Inr, of pf]
    have len: "rows \<noteq> [] \<Longrightarrow> length rows \<noteq> Suc 0 \<Longrightarrow> 2 \<le> length rows"
      by (cases rows) (auto simp: Suc_le_eq)
    show ?thesis
      using f Inr len
      by (simp add: DataReader_Problem4_1_def bindE_def g print_def print_array_def column_def
          log_def returnE_def)
  qed
  qed
qed

lemma outcome51:
  "map_sum id (\<lambda>_. ()) (fst (DataReader_Problem5_1 pf w)) =
     (case files w ''data_SignalDetection.csv'' of
        None \<Rightarrow> Inl FileNotFoundError
      | Some (Unreadable name) \<Rightarrow> Inl (ReadError name)
      | Some (Text lines) \<Rightarrow>
          (case read_rows (Some CHR '','') 1 lines of
             Inl e \<Rightarrow> Inl ValueError
           | Inr rows \<Rightarrow>
               if 2 \<le> length rows \<and> 5 \<le> nbcols rows then Inr () else Inl IndexError))"
proof (cases "files w ''data_SignalDetection.csv''")
  case None
  then show ?thesis
    by (simp add: DataReader_Problem5_1_def bindE_def genfromtxt_missing)
next
  case (Some entry)
  show ?thesis
  proof (cases entry)
    case (Unreadable name)
    with Some show ?thesis
      by (simp add: DataReader_Problem5_1_def bindE_def genfromtxt_unreadable)
  next
    case (Text lines)
    with Some have f: "files w ''data_SignalDetection.csv'' = Some (Text lines)" by simp
  show ?thesis
  proof (cases "read_rows (Some CHR '','') (Suc 0) lines")
    case (Inl e)
    with f read_rows_Inl [OF Inl] show ?thesis
      by (simp add: DataReader_Problem5_1_def bindE_def genfromtxt_invalid)
  next
    case (Inr rows)
    note g = genfromtxt_loaded [OF f Inr, of pf]
    have len: "rows \<noteq> [] \<Longrightarrow> length rows \<noteq> Suc 0 \<Longrightarrow> 2 \<le> length rows"
      by (cases rows) (auto simp: Suc_le_eq)
    show ?thesis
      using f Inr len
      by (simp add: DataReader_Problem5_1_def bindE_def g print_def print_array_def column_def
          first_rows_def astype_int_def alloc_def log_def returnE_def shape_def)
  qed
  qed
qed

lemma outcome52:
  "map_sum id (\<lambda>_. ()) (fst (DataReader_Problem5_2 pf w)) =
     (case files w ''data_DecayTimes.csv'' of
        None \<Rightarrow> Inl FileNotFoundError
      | Some (Unreadable name) \<Rightarrow> Inl (ReadError name)
      | Some (Text lines) \<Rightarrow>
          (case read_rows None 0 lines of
             Inl e \<Rightarrow> Inl ValueError
           | Inr rows \<Rightarrow>
               if length rows = 1 \<and> nbcols rows = 1 then Inl IndexError else Inr ()))"
proof (cases "files w ''data_DecayTimes.csv''")
  case None
  then show ?thesis
    by (simp add: DataReader_Problem5_2_def bindE_def genfromtxt_missing)
next
  case (Some entry)
  show ?thesis
  proof (cases entry)
    case (Unreadable name)
    with Some show ?thesis
      by (simp add: DataReader_Problem5_2_def bindE_def genfromtxt_unreadable)
  next
    case (Text lines)
    with Some have f: "files w ''data_DecayTimes.csv'' = Some (Text lines)" by simp
  show ?thesis
  proof (cases "read_rows None 0 lines")
    case (Inl e)
    with f read_rows_Inl [OF Inl] show ?thesis
      by (simp add: DataReader_Problem5_2_def bindE_def genfromtxt_invalid)
  next
    case (Inr rows)
    note g = genfromtxt_loaded [OF f Inr, of pf]
    show ?thesis
      using f Inr
      by (simp add: DataReader_Problem5_2_def bindE_def g print_def print_array_def
          first_rows_def log_def returnE_def)
  qed
  qed
qed


lemma printed_append: "printed (xs @ ys) = printed xs @ printed ys"
  by (induction xs rule: printed.induct) simp_all

lemma completes41:
  assumes "DataReader_Problem4_1 pf w = (Inr x, w')"
  shows "\<exists>lines k. files w ''data_LargestPopulation.csv'' = Some (Text lines) \<and>
           well_formed (Some CHR '','') 1 k lines \<and> 3 \<le> k"
proof -
  from assms have ok: "map_sum id (\<lambda>_. ()) (fst (DataReader_Problem4_1 pf w)) = Inr ()" by simp
  then obtain lines where f: "files w ''data_LargestPopulation.csv'' = Some (Text lines)"
    unfolding outcome41 by (auto split: option.splits entry.splits)
  with ok obtain rows where r: "read_rows (Some CHR '','') 1 lines = Inr rows"
    unfolding outcome41 by (auto split: sum.splits)
  with ok f have n: "2 \<le> length rows" "3 \<le> nbcols rows"
    unfolding outcome41 by (auto split: if_splits)
  from read_rows_Inr [OF r] n have "well_formed (Some CHR '','') 1 (nbcols rows) lines"
    by (simp add: well_formed_def)
  with f n show ?thesis by blast
qed

lemma completes51:
  assumes "DataReader_Problem5_1 pf w = (Inr x, w')"
  shows "\<exists>lines k. files w ''data_SignalDetection.csv'' = Some (Text lines) \<and>
           well_formed (Some CHR '','') 1 k lines \<and> 5 \<le> k"
proof -
  from assms have ok: "map_sum id (\<lambda>_. ()) (fst (DataReader_Problem5_1 pf w)) = Inr ()" by simp
  then obtain lines where f: "files w ''data_SignalDetection.csv'' = Some (Text lines)"
    unfolding outcome51 by (auto split: option.splits entry.splits)
  with ok obtain rows where r: "read_rows (Some CHR '','') 1 lines = Inr rows"
    unfolding outcome51 by (auto split: sum.splits)
  with ok f have n: "2 \<le> length rows" "5 \<le> nbcols rows"
    unfolding outcome51 by (auto split: if_splits)
  from read_rows_Inr [OF r] n have "well_formed (Some CHR '','') 1 (nbcols rows) lines"
    by (simp add: well_formed_def)
  with f n show ?thesis by blast
qed


lemma steps41:
  "prefix (steps w (snd (DataReader_Problem4_1 pf w)))
     [Open, Parse, Print, Slice, Slice, Slice, Print, Print, Print] \<and>
   (isl (fst (DataReader_Problem4_1 pf w)) \<or>
    steps w (snd (DataReader_Problem4_1 pf w)) =
      [Open, Parse, Print, Slice, Slice, Slice, Print, Print, Print])"
proof (cases "files w ''data_LargestPopulation.csv''")
  case None
  then show ?thesis
    by (simp add: DataReader_Problem4_1_def bindE_def genfromtxt_missing steps_def)
next
  case (Some entry)
  show ?thesis
  proof (cases entry)
    case (Unreadable name)
    with Some show ?thesis
      by (simp add: DataReader_Problem4_1_def bindE_def genfromtxt_unreadable steps_def)
  next
    case (Text lines)
    with Some have f: "files w ''data_LargestPopulation.csv'' = Some (Text lines)" by simp
  show ?thesis
  proof (cases "read_rows (Some CHR '','') (Suc 0) lines")
    case (Inl e)
    with f show ?thesis
      by (simp add: DataReader_Problem4_1_def bindE_def genfromtxt_invalid steps_def)
  next
    case (Inr rows)
    note g = genfromtxt_loaded [OF f Inr, of pf]
    show ?thesis
      by (simp add: DataReader_Problem4_1_def bindE_def g print_def print_array_def column_def
          log_def returnE_def steps_def)
  qed
  qed
qed

lemma steps51:
  "prefix (steps w (snd (DataReader_Problem5_1 pf w)))
     [Open, Parse, Print, Slice, Astype, Slice, Slice, Slice, Slice, Astype,
      Slice, Print, Slice, Print, Slice, Print, Slice, Print, Slice, Print] \<and>
   (isl (fst (DataReader_Problem5_1 pf w)) \<or>
    steps w (snd (DataReader_Problem5_1 pf w)) =
     [Open, Parse, Print, Slice, Astype, Slice, Slice, Slice, Slice, Astype,
      Slice, Print, Slice, Print, Slice, Print, Slice, Print, Slice, Print])"
proof (cases "files w ''data_SignalDetection.csv''")
  case None
  then show ?thesis
    by (simp add: DataReader_Problem5_1_def bindE_def genfromtxt_missing steps_def)
next
  case (Some entry)
  show ?thesis
  proof (cases entry)
    case (Unreadable name)
    with Some show ?thesis
      by (simp add: DataReader_Problem5_1_def bindE_def genfromtxt_unreadable steps_def)
  next
    case (Text lines)
    with Some have f: "files w ''data_SignalDetection.csv'' = Some (Text lines)" by simp
  show ?thesis
  proof (cases "read_rows (Some CHR '','') (Suc 0) lines")
    case (Inl e)
    with f show ?thesis
      by (simp add: DataReader_Problem5_1_def bindE_def genfromtxt_invalid steps_def)
  next
    case (Inr rows)
    note g = genfromtxt_loaded [OF f Inr, of pf]
    show ?thesis
      by (simp add: DataReader_Problem5_1_def bindE_def g print_def print_array_def column_def
          first_rows_def astype_int_def alloc_def shape_def log_def returnE_def steps_def)
  qed
  qed
qed

lemma steps52:
  "prefix (steps w (snd (DataReader_Problem5_2 pf w))) [Open, Parse, Print, Slice, Print] \<and>
   (isl (fst (DataReader_Problem5_2 pf w)) \<or>
    steps w (snd (DataReader_Problem5_2 pf w)) = [Open, Parse, Print, Slice, Print])"
proof (cases "files w ''data_DecayTimes.csv''")
  case None
  then show ?thesis
    by (simp add: DataReader_Problem5_2_def bindE_def genfromtxt_missing steps_def)
next
  case (Some entry)
  show ?thesis
  proof (cases entry)
    case (Unreadable name)
    with Some show ?thesis
      by (simp add: DataReader_Problem5_2_def bindE_def genfromtxt_unreadable steps_def)
  next
    case (Text lines)
    with Some have f: "files w ''data_DecayTimes.csv'' = Some (Text lines)" by simp
  show ?thesis
  proof (cases "read_rows None 0 lines")
    case (Inl e)
    with f show ?thesis
      by (simp add: DataReader_Problem5_2_def bindE_def genfromtxt_invalid steps_def)
  next
    case (Inr rows)
    note g = genfromtxt_loaded [OF f Inr, of pf]
    show ?thesis
      by (simp add: DataReader_Problem5_2_def bindE_def g print_def print_array_def
          first_rows_def log_def returnE_def steps_def)
  qed
  qed
qed


lemma example_columns:
  "take 3 (map to_int64 (table_column example_float (split_rows (Some CHR '','') 1 signal_file) 0))
     = [I 0, I 1, I 2]"
  "take 3 (table_column example_float (split_rows (Some CHR '','') 1 signal_file) 1)
     = [F (Finite 3), F (Finite 4), F (Finite 5)]"
  "take 10 (table_column example_float (split_rows None 0 decay_file) 0)
     = map (\<lambda>n. F (Finite (of_nat n))) [12, 7, 31, 2, 19, 5, 8, 44, 3, 10]"
  by (simp_all add: table_column_def line_defs example_defs loose_call_def
      trunc_toward_zero_def in_int64_def)


lemma good_disk_completes:
  "\<exists>data year PopIndia PopChina w'.
     DataReader_Problem4_1 example_float good_disk = (Inr (data, year, PopIndia, PopChina), w')"
  "\<exists>data index P R freq type w'.
     DataReader_Problem5_1 example_float good_disk = (Inr (data, index, P, R, freq, type), w')"
  "\<exists>data w'. DataReader_Problem5_2 example_float good_disk = (Inr data, w')"
  using run41 [OF good_disk_files(1) example_files_well_formed(1) order_refl refl, of example_float]
    run51 [OF good_disk_files(2) example_files_well_formed(2) order_refl refl, of example_float]
    run52 [OF good_disk_files(3) example_files_well_formed(3) refl, of example_float]
  by blast+


lemma item_table:
  assumes "list_all (\<lambda>v. length v = k) rows" "r < length rows" "c < k"
  shows "item (h @ table_cells pf rows # h')
           \<lparr>base = length h, offset = 0, dims = [(length rows, k), (k, 1)]\<rparr> [r, c]
         = loose_call pf (rows ! r ! c)"
proof -
  from assms(1) have all: "list_all (\<lambda>v. length v = k) (map (map (loose_call pf)) rows)"
    by (simp add: list_all_iff)
  from assms have "rows ! r ! c = rows ! r ! c \<and> length (rows ! r) = k"
    by (simp add: list_all_length)
  with nth_concat_rows [OF all _ assms(3), of r] assms(2,3)
  show ?thesis by (simp add: item_def table_cells_def)
qed




lemma load_failure:
  assumes "files w fname = None \<or>
           (\<exists>lines. files w fname = Some (Text lines) \<and> read_rows d sk lines = Inl ValueError)"
  shows "\<exists>e w'. bindE (genfromtxt pf fname d sk) body w = (Inl e, w') \<and>
           genfromtxt pf fname d sk w = (Inl e, w') \<and>
           printed (trace w') = printed (trace w) \<and> heap w' = heap w \<and> files w' = files w \<and>
           (e = FileNotFoundError \<longleftrightarrow> files w fname = None) \<and>
           (e = ValueError \<longleftrightarrow> files w fname \<noteq> None)"
  using assms
  by (auto simp: bindE_def genfromtxt_missing genfromtxt_invalid printed_append)

section \<open>Runs on the same file\<close>





section \<open>What a run leaves alone\<close>

lemma frameI:
  "(\<And>w r w'. m w = (r, w') \<Longrightarrow> prefix (heap w) (heap w') \<and> files w' = files w) \<Longrightarrow> frame m"
  by (simp add: frame_def)

lemma frameD: "frame m \<Longrightarrow> m w = (r, w') \<Longrightarrow> prefix (heap w) (heap w') \<and> files w' = files w"
  by (simp add: frame_def)

lemma frame_bindE:
  assumes "frame m" "\<And>x. frame (f x)"
  shows "frame (bindE m f)"
proof (rule frameI)
  fix w r w' assume run: "bindE m f w = (r, w')"
  obtain r1 w1 where m: "m w = (r1, w1)" by (cases "m w")
  note p1 = frameD [OF assms(1) m]
  show "prefix (heap w) (heap w') \<and> files w' = files w"
  proof (cases r1)
    case (Inl e)
    with run m p1 show ?thesis by (simp add: bindE_def)
  next
    case (Inr x)
    with run m have "f x w1 = (r, w')" by (simp add: bindE_def)
    from frameD [OF assms(2) this] p1 show ?thesis by (auto intro: prefix_order.trans)
  qed
qed

lemma frame_after:
  assumes m: "m w = (Inr x, w1)" and f: "\<And>x. frame (f x)" and run: "bindE m f w = (r, w')"
  shows "prefix (heap w1) (heap w') \<and> files w' = files w1"
proof -
  from m run have "f x w1 = (r, w')" by (simp add: bindE_def)
  from frameD [OF f this] show ?thesis .
qed

lemma frame_returnE: "frame (returnE x)"
  by (simp add: frame_def returnE_def)

lemma frame_print: "frame (print args)"
  by (simp add: frame_def print_def log_def)

lemma frame_print_array: "frame (print_array a)"
  by (auto simp: frame_def print_array_def print_def log_def)

lemma frame_column: "frame (column a k)"
  by (auto simp: frame_def column_def log_def split: list.splits if_splits)

lemma frame_first_rows: "frame (first_rows a n)"
  by (auto simp: frame_def first_rows_def log_def split: list.splits)

lemma frame_astype_int: "frame (astype_int a)"
  by (auto simp: frame_def astype_int_def alloc_def log_def)

lemma frame_genfromtxt: "frame (genfromtxt pf fname d sk)"
  by (auto simp: frame_def genfromtxt_def alloc_def log_def Let_def
      split: option.splits entry.splits sum.splits)

lemmas frame_intros = frame_bindE frame_returnE frame_print frame_print_array frame_column
  frame_first_rows frame_astype_int frame_genfromtxt

lemma frame_scripts:
  "frame (DataReader_Problem4_1 pf)" "frame (DataReader_Problem5_1 pf)"
  "frame (DataReader_Problem5_2 pf)"
  unfolding DataReader_Problem4_1_def DataReader_Problem5_1_def DataReader_Problem5_2_def
  by (intro frame_intros)+

lemma genfromtxt_base:
  "genfromtxt pf fname d sk w = (Inr data, w1) \<Longrightarrow> base data < length (heap w1)"
  by (auto simp: genfromtxt_def alloc_def log_def squeeze_def Let_def
      split: option.splits entry.splits sum.splits)

lemma prefix_nth: "prefix xs ys \<Longrightarrow> i < length xs \<Longrightarrow> ys ! i = xs ! i"
  by (auto simp: prefix_def nth_append)

lemma table_kept:
  assumes g: "genfromtxt pf fname d sk w = (Inr data, w1)"
    and f: "\<And>x. frame (f x)"
    and run: "bindE (genfromtxt pf fname d sk) f w = (r, w')"
  shows "prefix (heap w1) (heap w') \<and> heap w' ! base data = heap w1 ! base data \<and>
         elems (heap w') data = elems (heap w1) data \<and> files w' = files w"
proof -
  from frame_after [OF g f run] have p: "prefix (heap w1) (heap w')" and fl: "files w' = files w1"
    by simp_all
  from prefix_nth [OF p genfromtxt_base [OF g]]
  have n: "heap w' ! base data = heap w1 ! base data" .
  from frameD [OF frame_genfromtxt g] have "files w1 = files w" by simp
  with p n fl show ?thesis by (simp add: elems_def)
qed

section \<open>Splitting lines\<close>

lemma split_on_nonempty: "split_on d s \<noteq> []"
  by (induction s) (auto split: list.splits)

lemma split_on_join: "join_fields d (split_on d s) = s"
proof (induction s)
  case Nil
  then show ?case by simp
next
  case (Cons c s)
  obtain f fs where sp: "split_on d s = f # fs"
    using split_on_nonempty [of d s] by (cases "split_on d s") auto
  with Cons show ?case by (cases fs) auto
qed

lemma split_on_no_delimiter: "f \<in> set (split_on d s) \<Longrightarrow> d \<notin> set f"
proof (induction s arbitrary: f)
  case Nil
  then show ?case by simp
next
  case (Cons c s)
  then show ?case by (auto split: if_splits list.splits)
qed

lemma split_ws_fields:
  assumes "f \<in> set (split_ws cur s)" "\<forall>c\<in>set cur. \<not> is_space c"
  shows "f \<noteq> [] \<and> (\<forall>c\<in>set f. \<not> is_space c)"
  using assms
proof (induction s arbitrary: cur)
  case Nil
  then show ?case by (cases "cur = []") auto
next
  case (Cons c s)
  show ?case
  proof (cases "is_space c")
    case True
    note sp = True
    show ?thesis
    proof (cases "cur = []")
      case True
      with sp Cons.prems have "f \<in> set (split_ws [] s)" by simp
      from Cons.IH [OF this] show ?thesis by simp
    next
      case False
      with sp Cons.prems have "f = rev cur \<or> f \<in> set (split_ws [] s)" by simp
      then show ?thesis
      proof
        assume "f = rev cur"
        with False Cons.prems(2) show ?thesis by simp
      next
        assume "f \<in> set (split_ws [] s)"
        from Cons.IH [OF this] show ?thesis by simp
      qed
    qed
  next
    case False
    with Cons.prems have m: "f \<in> set (split_ws (c # cur) s)" by simp
    from False Cons.prems(2) have "\<forall>x\<in>set (c # cur). \<not> is_space x" by simp
    from Cons.IH [OF m this] show ?thesis .
  qed
qed

lemma split_ws_concat:
  "concat (split_ws cur s) = rev cur @ filter (\<lambda>c. \<not> is_space c) s"
  by (induction cur s rule: split_ws.induct) auto

lemma split_ws_single:
  "\<forall>c\<in>set s. \<not> is_space c \<Longrightarrow> split_ws cur s = (if cur = [] \<and> s = [] then [] else [rev cur @ s])"
  by (induction cur s rule: split_ws.induct) auto

lemma comma_not_space: "\<not> is_space CHR '',''"
  by (simp add: is_space_def)

lemma split_rows_comma:
  "split_rows (Some d) sk lines =
     map (split_on d) (filter (\<lambda>l. l \<noteq> []) (map clean (drop sk lines)))"
proof -
  have "filter (\<lambda>values. values \<noteq> []) (map (split_line (Some d)) ls)
      = map (split_on d) (filter (\<lambda>l. l \<noteq> []) (map clean ls))" for ls
    by (induction ls) (simp_all add: split_line_def split_on_nonempty)
  then show ?thesis by (simp add: split_rows_def)
qed

lemma split_rows_whitespace:
  "split_rows None sk lines =
     filter (\<lambda>values. values \<noteq> []) (map (\<lambda>l. split_ws [] (clean l)) (drop sk lines))"
proof -
  have "split_line None = (\<lambda>l. split_ws [] (clean l))"
    by (rule ext) (simp add: split_line_def)
  then show ?thesis by (simp add: split_rows_def)
qed

lemma length_table_cells:
  "list_all (\<lambda>v. length v = m) rows \<Longrightarrow> length (table_cells pf rows) = length rows * m"
proof -
  assume "list_all (\<lambda>v. length v = m) rows"
  then have "list_all (\<lambda>v. length v = m) (map (map (loose_call pf)) rows)"
    by (simp add: list_all_iff)
  from length_concat_rows [OF this] show ?thesis by (simp add: table_cells_def)
qed

lemma singleton_nth: "length xs = Suc 0 \<Longrightarrow> [xs ! 0] = xs"
  by (cases xs) auto

lemma elems_loaded:
  assumes all: "list_all (\<lambda>v. length v = nbcols rows) rows"
  shows "elems (h @ [table_cells pf rows])
           \<lparr>base = length h, offset = 0,
            dims = filter (\<lambda>(n, s). n \<noteq> 1)
                     (if rows = [] then [(0, 1)]
                      else [(length rows, nbcols rows), (nbcols rows, 1)])\<rparr>
         = table_cells pf rows"
proof -
  let ?c = "table_cells pf rows"
  note len = length_table_cells [OF all, of pf]
  have full: "map ((!) ?c) [0..<length ?c] = ?c" by (rule map_nth)
  show ?thesis
  proof (cases "rows = []")
    case True
    then show ?thesis by (simp add: elems_def table_cells_def)
  next
    case False
    note ne = False
    show ?thesis
    proof (cases "length rows = 1")
      case True
      note n1 = True
      show ?thesis
      proof (cases "nbcols rows = 1")
        case True
        with n1 len have "length ?c = Suc 0" by simp
        from singleton_nth [OF this] ne n1 True show ?thesis by (simp add: elems_def)
      next
        case False
        with ne n1 len full show ?thesis by (simp add: elems_def concat_singletons)
      qed
    next
      case False
      note n1 = False
      show ?thesis
      proof (cases "nbcols rows = 1")
        case True
        with ne n1 len full show ?thesis by (simp add: elems_def concat_singletons)
      next
        case False
        with ne n1 len full show ?thesis
          by (simp add: elems_def offsets_2d del: offsets.simps)
      qed
    qed
  qed
qed

lemma loaded52:
  assumes run: "DataReader_Problem5_2 pf w = (Inr data, w')"
    and f: "files w ''data_DecayTimes.csv'' = Some (Text lines)"
  shows "elems (heap w') data = table_cells pf (split_rows None 0 lines)"
proof -
  from run have ok: "map_sum id (\<lambda>_. ()) (fst (DataReader_Problem5_2 pf w)) = Inr ()" by simp
  with f obtain rows where r: "read_rows None 0 lines = Inr rows"
    unfolding outcome52 by (auto split: sum.splits)
  note g = genfromtxt_loaded [OF f r, of pf]
  note rr = read_rows_Inr [OF r]
  from run have "data = \<lparr>base = length (heap w), offset = 0,
          dims = filter (\<lambda>(n, s). n \<noteq> 1)
                   (if rows = [] then [(0, 1)]
                    else [(length rows, nbcols rows), (nbcols rows, 1)])\<rparr> \<and>
      heap w' = heap w @ [table_cells pf rows]"
    by (auto simp: DataReader_Problem5_2_def bindE_def g print_def print_array_def
        first_rows_def log_def returnE_def split: list.splits if_splits)
  with elems_loaded [OF rr(2), of "heap w" pf] rr(1) show ?thesis by simp
qed

lemma loaded41:
  assumes run: "DataReader_Problem4_1 pf w = (Inr (data, year, PopIndia, PopChina), w')"
    and f: "files w ''data_LargestPopulation.csv'' = Some (Text lines)"
  shows "elems (heap w') data = table_cells pf (split_rows (Some CHR '','') 1 lines)"
proof -
  from completes41 [OF run] f obtain k
    where wf: "well_formed (Some CHR '','') 1 k lines" and k: "3 \<le> k" by auto
  let ?rows = "split_rows (Some CHR '','') 1 lines"
  from wf have all: "list_all (\<lambda>v. length v = k) ?rows" by (simp add: well_formed_def)
  from run [unfolded run41 [OF f wf k refl]]
    elems_table [OF all, of "length (heap w)" "heap w" pf "[]"]
  show ?thesis by auto
qed

lemma loaded51:
  assumes run: "DataReader_Problem5_1 pf w = (Inr (data, index, P, R, freq, type), w')"
    and f: "files w ''data_SignalDetection.csv'' = Some (Text lines)"
  shows "elems (heap w') data = table_cells pf (split_rows (Some CHR '','') 1 lines)"
proof -
  from completes51 [OF run] f obtain k
    where wf: "well_formed (Some CHR '','') 1 k lines" and k: "5 \<le> k" by auto
  let ?rows = "split_rows (Some CHR '','') 1 lines"
  from wf have all: "list_all (\<lambda>v. length v = k) ?rows" by (simp add: well_formed_def)
  from run [unfolded run51 [OF f wf k refl]]
    elems_table [OF all, of "length (heap w)" "heap w" pf]
  show ?thesis by auto
qed




lemma long_file_rows:
  "split_rows (Some CHR '','') 1 long_population_file = replicate 1001 [''1960'', ''445'', ''654'']"
proof -
  have l: "split_line (Some CHR '','') ''1960,445,654'' = [''1960'', ''445'', ''654'']"
    by (simp add: split_line_def clean_def strip_def)
  show ?thesis
    by (simp add: long_population_file_def split_rows_def l)
qed

lemma long_file_well_formed: "well_formed (Some CHR '','') 1 3 long_population_file"
  using long_file_rows by (simp add: well_formed_def list_all_iff)

lemma long_file_columns:
  "table_column example_float (replicate 1001 [''1960'', ''445'', ''654'']) 0
     = replicate 1001 (F (Finite 1960))"
  "table_column example_float (replicate 1001 [''1960'', ''445'', ''654'']) 1
     = replicate 1001 (F (Finite 445))"
  "table_column example_float (replicate 1001 [''1960'', ''445'', ''654'']) 2
     = replicate 1001 (F (Finite 654))"
  by (simp_all add: table_column_def loose_call_def example_float_def)

lemma elems_view:
  "elems h \<lparr>base = b, offset = c, dims = [(n, k)]\<rparr>
     = map (\<lambda>r. item h \<lparr>base = b, offset = 0, dims = [(n, k), (k, 1)]\<rparr> [r, c]) [0..<n]"
  by (simp add: elems_def offsets_1d item_def ac_simps)

lemma elems_update_other: "base a \<noteq> b \<Longrightarrow> elems (h[b := cells]) a = elems h a"
  by (simp add: elems_def)

lemma is_int_to_int64: "is_int (to_int64 x)"
  by (induction x rule: to_int64.induct) simp_all

lemma projections41:
  assumes run: "DataReader_Problem4_1 pf w = (Inr (data, year, PopIndia, PopChina), w')"
  shows "\<exists>n k. shape data = [n, k] \<and>
           shape year = [n] \<and> shape PopIndia = [n] \<and> shape PopChina = [n] \<and>
           base year = base data \<and> base PopIndia = base data \<and> base PopChina = base data \<and>
           (\<forall>h. elems h year = map (\<lambda>r. item h data [r, 0]) [0..<n] \<and>
                elems h PopIndia = map (\<lambda>r. item h data [r, 1]) [0..<n] \<and>
                elems h PopChina = map (\<lambda>r. item h data [r, 2]) [0..<n])"
proof -
  from completes41 [OF run] obtain lines k
    where f: "files w ''data_LargestPopulation.csv'' = Some (Text lines)"
      and wf: "well_formed (Some CHR '','') 1 k lines" and k: "3 \<le> k" by blast
  from run [unfolded run41 [OF f wf k refl]] show ?thesis
    by (auto simp: shape_def elems_view)
qed

lemma projections51:
  assumes run: "DataReader_Problem5_1 pf w = (Inr (data, index, P, R, freq, type), w')"
  shows "\<exists>n k. shape data = [n, k] \<and>
           shape P = [n] \<and> shape R = [n] \<and> shape freq = [n] \<and>
           shape index = [n] \<and> shape type = [n] \<and>
           base P = base data \<and> base R = base data \<and> base freq = base data \<and>
           base index \<noteq> base data \<and> base type \<noteq> base data \<and> base index \<noteq> base type \<and>
           (\<forall>h. elems h P = map (\<lambda>r. item h data [r, 1]) [0..<n] \<and>
                elems h R = map (\<lambda>r. item h data [r, 2]) [0..<n] \<and>
                elems h freq = map (\<lambda>r. item h data [r, 3]) [0..<n]) \<and>
           elems (heap w') index = map (\<lambda>r. to_int64 (item (heap w') data [r, 0])) [0..<n] \<and>
           elems (heap w') type = map (\<lambda>r. to_int64 (item (heap w') data [r, 4])) [0..<n] \<and>
           list_all is_float (elems (heap w') data) \<and>
           list_all is_int (elems (heap w') index) \<and> list_all is_int (elems (heap w') type) \<and>
           (\<forall>cells. elems ((heap w')[base data := cells]) index = elems (heap w') index \<and>
                    elems ((heap w')[base data := cells]) type = elems (heap w') type)"
proof -
  from completes51 [OF run] obtain lines k
    where f: "files w ''data_SignalDetection.csv'' = Some (Text lines)"
      and wf: "well_formed (Some CHR '','') 1 k lines" and k: "5 \<le> k" by blast
  let ?rows = "split_rows (Some CHR '','') 1 lines"
  let ?n = "length ?rows"
  let ?h = "heap w" and ?c = "table_cells pf ?rows"
  let ?i0 = "map to_int64 (table_column pf ?rows 0)"
  let ?i4 = "map to_int64 (table_column pf ?rows 4)"
  let ?data = "\<lparr>base = length ?h, offset = 0, dims = [(?n, k), (k, 1)]\<rparr>"
  from wf have all: "list_all (\<lambda>v. length v = k) ?rows" by (simp add: well_formed_def)
  note r = run [unfolded run51 [OF f wf k refl]]
  from r have hw: "heap w' = ?h @ [?c, ?i0, ?i4]" and d: "data = ?data"
    and ix: "index = \<lparr>base = length ?h + 1, offset = 0, dims = [(?n, 1)]\<rparr>"
    and ty: "type = \<lparr>base = length ?h + 2, offset = 0, dims = [(?n, 1)]\<rparr>"
    by auto
  have e0: "elems (heap w') index = ?i0"
    unfolding hw ix
    using elems_contiguous [of "Suc (length ?h)" "?h @ [?c]" ?i0 "[?i4]" ?n]
    by (simp add: table_column_def)
  have e4: "elems (heap w') type = ?i4"
    unfolding hw ty
    using elems_contiguous [of "Suc (Suc (length ?h))" "?h @ [?c, ?i0]" ?i4 "[]" ?n]
    by (simp add: table_column_def)
  have it: "\<And>r c. r < ?n \<Longrightarrow> c < k \<Longrightarrow>
      item (heap w') data [r, c] = loose_call pf (?rows ! r ! c)"
    unfolding hw d using item_table [OF all, of _ _ ?h pf "[?i0, ?i4]"] by simp
  from k have c: "0 < k" "4 < k" by simp_all
  have v0: "?i0 = map (\<lambda>r. to_int64 (item (heap w') data [r, 0])) [0..<?n]"
    by (rule nth_equalityI) (simp_all add: table_column_def it [OF _ c(1)])
  have v4: "?i4 = map (\<lambda>r. to_int64 (item (heap w') data [r, 4])) [0..<?n]"
    by (rule nth_equalityI) (simp_all add: table_column_def it [OF _ c(2)])
  have fl: "list_all is_float (elems (heap w') data)"
    unfolding hw d
    using elems_table [OF all, of "length ?h" ?h pf "[?i0, ?i4]"] table_cells_float [of pf ?rows]
    by simp
  have ints: "list_all is_int (elems (heap w') index)" "list_all is_int (elems (heap w') type)"
    unfolding e0 e4 by (simp_all add: list_all_iff is_int_to_int64)
  from r have ne: "base index \<noteq> base data" "base type \<noteq> base data" "base index \<noteq> base type"
    by auto
  then have upd: "\<forall>cells. elems ((heap w')[base data := cells]) index = elems (heap w') index \<and>
                    elems ((heap w')[base data := cells]) type = elems (heap w') type"
    by (simp add: elems_update_other)
  from r have sh: "shape data = [?n, k]" "shape P = [?n]" "shape R = [?n]" "shape freq = [?n]"
    "shape index = [?n]" "shape type = [?n]"
    "base P = base data" "base R = base data" "base freq = base data"
    by (auto simp: shape_def)
  from r have vw: "\<forall>h. elems h P = map (\<lambda>r. item h data [r, 1]) [0..<?n] \<and>
                elems h R = map (\<lambda>r. item h data [r, 2]) [0..<?n] \<and>
                elems h freq = map (\<lambda>r. item h data [r, 3]) [0..<?n]"
    by (auto simp: elems_view)
  from e0 v0 have i0: "elems (heap w') index = map (\<lambda>r. to_int64 (item (heap w') data [r, 0])) [0..<?n]"
    by simp
  from e4 v4 have i4: "elems (heap w') type = map (\<lambda>r. to_int64 (item (heap w') data [r, 4])) [0..<?n]"
    by simp
  from sh ne vw i0 i4 fl ints upd show ?thesis by blast
qed






section \<open>The loaded table\<close>

text \<open>
  C1 (as the specification states it): for every well-formed input file with the
  documented column count each script loads a rectangular two-dimensional table of floats,
  with 3 columns for Problem 4.1, 5 for Problem 5.1 and the documented schema for
  Problem 5.2. The documented schema of Problem 5.2 is a single column of decay times, and
  on such a file the loaded array has one axis, not two: the twelve-line example file
  loads with shape \<open>(12,)\<close>.
\<close>

theorem C1_counterexample:
  "well_formed None 0 1 decay_file \<and>
   map_sum id shape (fst (DataReader_Problem5_2 example_float good_disk)) = Inr [12]"
  by (simp add: well_formed_def line_defs example_defs DataReader_Problem5_2_def run_defs)

text \<open>
  C1 (amended): on a file with at least two data lines, all of them with the documented
  number of fields, Problem 4.1 loads a two-dimensional table of floats with 3 columns and
  Problem 5.1 one with 5 columns, one row per data line; Problem 5.2 loads its
  single-column file as a one-dimensional array of floats, one entry per data line. In
  each case the elements are the converted fields of the data lines, in order.
\<close>

theorem C1_loaded_table:
  "(files w1 ''data_LargestPopulation.csv'' = Some (Text lines1) \<and>
    well_formed (Some CHR '','') 1 3 lines1 \<longrightarrow>
      (\<exists>data year PopIndia PopChina w'.
          DataReader_Problem4_1 pf w1 = (Inr (data, year, PopIndia, PopChina), w') \<and>
          shape data = [length (split_rows (Some CHR '','') 1 lines1), 3] \<and>
          elems (heap w') data = table_cells pf (split_rows (Some CHR '','') 1 lines1) \<and>
          list_all is_float (elems (heap w') data))) \<and>
   (files w2 ''data_SignalDetection.csv'' = Some (Text lines2) \<and>
    well_formed (Some CHR '','') 1 5 lines2 \<longrightarrow>
      (\<exists>data index P R freq type w'.
          DataReader_Problem5_1 pf w2 = (Inr (data, index, P, R, freq, type), w') \<and>
          shape data = [length (split_rows (Some CHR '','') 1 lines2), 5] \<and>
          elems (heap w') data = table_cells pf (split_rows (Some CHR '','') 1 lines2) \<and>
          list_all is_float (elems (heap w') data))) \<and>
   (files w3 ''data_DecayTimes.csv'' = Some (Text lines3) \<and>
    well_formed None 0 1 lines3 \<longrightarrow>
      (\<exists>data w'.
          DataReader_Problem5_2 pf w3 = (Inr data, w') \<and>
          shape data = [length (split_rows None 0 lines3)] \<and>
          elems (heap w') data = table_cells pf (split_rows None 0 lines3) \<and>
          list_all is_float (elems (heap w') data)))"
proof (intro conjI impI)
  assume a: "files w1 ''data_LargestPopulation.csv'' = Some (Text lines1) \<and>
    well_formed (Some CHR '','') 1 3 lines1"
  let ?rows = "split_rows (Some CHR '','') 1 lines1"
  from a have all: "list_all (\<lambda>v. length v = 3) ?rows" by (simp add: well_formed_def)
  have e: "elems (heap w1 @ [table_cells pf ?rows])
      \<lparr>base = length (heap w1), offset = 0, dims = [(length ?rows, 3), (3, 1)]\<rparr>
      = table_cells pf ?rows"
    using elems_table [OF all, of "length (heap w1)" "heap w1" pf "[]"] by simp
  from a have f: "files w1 ''data_LargestPopulation.csv'' = Some (Text lines1)"
    and wf: "well_formed (Some CHR '','') 1 3 lines1" by simp_all
  note run = run41 [OF f wf order_refl refl, of pf]
  show "\<exists>data year PopIndia PopChina w'.
          DataReader_Problem4_1 pf w1 = (Inr (data, year, PopIndia, PopChina), w') \<and>
          shape data = [length ?rows, 3] \<and>
          elems (heap w') data = table_cells pf ?rows \<and>
          list_all is_float (elems (heap w') data)"
    unfolding run using e by (simp add: shape_def table_cells_float)
next
  assume a: "files w2 ''data_SignalDetection.csv'' = Some (Text lines2) \<and>
    well_formed (Some CHR '','') 1 5 lines2"
  let ?rows = "split_rows (Some CHR '','') 1 lines2"
  from a have all: "list_all (\<lambda>v. length v = 5) ?rows" by (simp add: well_formed_def)
  have e: "\<And>h'. elems (heap w2 @ table_cells pf ?rows # h')
      \<lparr>base = length (heap w2), offset = 0, dims = [(length ?rows, 5), (5, 1)]\<rparr>
      = table_cells pf ?rows"
    using elems_table [OF all, of "length (heap w2)" "heap w2" pf] by simp
  from a have f: "files w2 ''data_SignalDetection.csv'' = Some (Text lines2)"
    and wf: "well_formed (Some CHR '','') 1 5 lines2" by simp_all
  note run = run51 [OF f wf order_refl refl, of pf]
  show "\<exists>data index P R freq type w'.
          DataReader_Problem5_1 pf w2 = (Inr (data, index, P, R, freq, type), w') \<and>
          shape data = [length ?rows, 5] \<and>
          elems (heap w') data = table_cells pf ?rows \<and>
          list_all is_float (elems (heap w') data)"
    unfolding run using e by (simp add: shape_def table_cells_float)
next
  assume a: "files w3 ''data_DecayTimes.csv'' = Some (Text lines3) \<and> well_formed None 0 1 lines3"
  let ?rows = "split_rows None 0 lines3"
  from a have all: "list_all (\<lambda>v. length v = 1) ?rows" by (simp add: well_formed_def)
  have e: "elems (heap w3 @ [table_cells pf ?rows])
      \<lparr>base = length (heap w3), offset = 0, dims = [(length ?rows, 1)]\<rparr>
      = table_cells pf ?rows"
    using elems_column [OF all, of 0 "length (heap w3)" "heap w3" pf "[]" "length ?rows"]
      table_column_single [OF all, of pf] by (simp add: table_column_def)
  from a have f: "files w3 ''data_DecayTimes.csv'' = Some (Text lines3)"
    and wf: "well_formed None 0 1 lines3" by simp_all
  note run = run52 [OF f wf refl, of pf]
  show "\<exists>data w'.
          DataReader_Problem5_2 pf w3 = (Inr data, w') \<and>
          shape data = [length ?rows] \<and>
          elems (heap w') data = table_cells pf ?rows \<and>
          list_all is_float (elems (heap w') data)"
    unfolding run using e by (simp add: shape_def table_cells_float)
qed


theorem C1_loaded_table_witness:
  "(files good_disk ''data_LargestPopulation.csv'' = Some (Text population_file) \<and>
    well_formed (Some CHR '','') 1 3 population_file \<and>
    (\<exists>data year PopIndia PopChina w'.
        DataReader_Problem4_1 example_float good_disk = (Inr (data, year, PopIndia, PopChina), w') \<and>
        shape data = [12, 3])) \<and>
   (files good_disk ''data_SignalDetection.csv'' = Some (Text signal_file) \<and>
    well_formed (Some CHR '','') 1 5 signal_file \<and>
    (\<exists>data index P R freq type w'.
        DataReader_Problem5_1 example_float good_disk = (Inr (data, index, P, R, freq, type), w') \<and>
        shape data = [4, 5])) \<and>
   (files good_disk ''data_DecayTimes.csv'' = Some (Text decay_file) \<and>
    well_formed None 0 1 decay_file \<and>
    (\<exists>data w'.
        DataReader_Problem5_2 example_float good_disk = (Inr data, w') \<and> shape data = [12]))"
  using C1_loaded_table [of good_disk population_file example_float
      good_disk signal_file good_disk decay_file]
    good_disk_files example_files_well_formed example_files_rows
  by auto


section \<open>The order of the steps\<close>

text \<open>
  C6 (as the specification states it): every script runs as open file, parse, slice the
  named columns, print, with no printing before the column slices are taken. Each script
  prints the shape of the table right after loading it, before its first slice: in the
  run of Problem 4.1 on the example file the third event is the print of the shape and
  the fourth is the first slice.
\<close>

theorem C6_counterexample:
  "take 4 (trace (snd (DataReader_Problem4_1 example_float good_disk))) =
     [EvOpen ''data_LargestPopulation.csv'', EvParse, EvPrint [Shape [12, 3]], EvSlice]"
  by (simp add: DataReader_Problem4_1_def run_defs line_defs example_defs)

text \<open>
  C6 (amended): every run of each script is an initial part of one fixed linear sequence,
  and a run that completes is the whole of it: open the file, parse it, print the shape,
  take the named column slices (with the integer conversions of Problem 5.1), then print
  the columns (Problem 5.1 takes the \<^verbatim>\<open>[0:3]\<close> slice of each column just before
  printing it; Problem 5.2 takes only the slice \<^verbatim>\<open>data[0:10]\<close>). The shape is the only
  thing printed before the slices of the named columns.
\<close>

theorem C6_step_order:
  "(prefix (steps w (snd (DataReader_Problem4_1 pf w)))
     [Open, Parse, Print, Slice, Slice, Slice, Print, Print, Print] \<and>
   (isl (fst (DataReader_Problem4_1 pf w)) \<or>
    steps w (snd (DataReader_Problem4_1 pf w)) =
      [Open, Parse, Print, Slice, Slice, Slice, Print, Print, Print])) \<and>
   (prefix (steps w (snd (DataReader_Problem5_1 pf w)))
     [Open, Parse, Print, Slice, Astype, Slice, Slice, Slice, Slice, Astype,
      Slice, Print, Slice, Print, Slice, Print, Slice, Print, Slice, Print] \<and>
   (isl (fst (DataReader_Problem5_1 pf w)) \<or>
    steps w (snd (DataReader_Problem5_1 pf w)) =
     [Open, Parse, Print, Slice, Astype, Slice, Slice, Slice, Slice, Astype,
      Slice, Print, Slice, Print, Slice, Print, Slice, Print, Slice, Print])) \<and>
   (prefix (steps w (snd (DataReader_Problem5_2 pf w))) [Open, Parse, Print, Slice, Print] \<and>
   (isl (fst (DataReader_Problem5_2 pf w)) \<or>
    steps w (snd (DataReader_Problem5_2 pf w)) = [Open, Parse, Print, Slice, Print]))"
  using steps41 [of w pf] steps51 [of w pf] steps52 [of w pf] by blast


section \<open>What is printed\<close>

text \<open>
  C2 (as the specification states it): each script prints only the shape and a sample of
  the first N rows of each column, not the whole column. Problem 4.1 prints
  \<^verbatim>\<open>year\<close>, \<^verbatim>\<open>PopIndia\<close> and \<^verbatim>\<open>PopChina\<close> unsliced: on the example file with
  twelve data lines the three arrays it hands to \<^verbatim>\<open>print\<close> hold all twelve rows.
\<close>

theorem C2_counterexample:
  "printed (trace (snd (DataReader_Problem4_1 example_float good_disk))) =
     [[Shape [12, 3]],
      [Arr [12] (map (\<lambda>n. Item (F (Finite (of_nat n))))
                  [1960, 1961, 1962, 1963, 1964, 1965, 1966, 1967, 1968, 1969, 1970, 1971])],
      [Arr [12] (map (\<lambda>n. Item (F (Finite (of_nat n))))
                  [445, 456, 467, 479, 491, 503, 515, 527, 540, 553, 567, 581])],
      [Arr [12] (map (\<lambda>n. Item (F (Finite (of_nat n))))
                  [654, 655, 664, 682, 698, 715, 735, 754, 774, 796, 818, 841])]]"
  by (simp add: DataReader_Problem4_1_def run_defs line_defs example_defs)

text \<open>
  C2 (amended): on a well-formed file each script prints the shape of the loaded array
  (Problem 5.1 after a label) and then: Problem 4.1 each of its three columns unsliced,
  which numpy writes in full when the column has at most 1000 rows and as its first three
  and last three rows around an ellipsis when it has more; Problem 5.1 the first 3 entries
  of each of its five columns, \<^verbatim>\<open>index\<close> and \<^verbatim>\<open>type\<close> as integers; Problem 5.2 the
  first 10 entries. Every printed entry is the converted field of the corresponding data
  line of the file, in the order of the file.
\<close>

theorem C2_printed:
  "(files w1 ''data_LargestPopulation.csv'' = Some (Text lines1) \<and>
    well_formed (Some CHR '','') 1 3 lines1 \<and> rows1 = split_rows (Some CHR '','') 1 lines1 \<and>
    n1 = length rows1 \<longrightarrow>
      printed (trace (snd (DataReader_Problem4_1 pf w1))) = printed (trace w1) @
        [[Shape [n1, 3]],
         [Arr [n1] (if 1000 < n1
                    then map Item (take 3 (table_column pf rows1 0)) @ [Dots] @
                         map Item (drop (n1 - 3) (table_column pf rows1 0))
                    else map Item (table_column pf rows1 0))],
         [Arr [n1] (if 1000 < n1
                    then map Item (take 3 (table_column pf rows1 1)) @ [Dots] @
                         map Item (drop (n1 - 3) (table_column pf rows1 1))
                    else map Item (table_column pf rows1 1))],
         [Arr [n1] (if 1000 < n1
                    then map Item (take 3 (table_column pf rows1 2)) @ [Dots] @
                         map Item (drop (n1 - 3) (table_column pf rows1 2))
                    else map Item (table_column pf rows1 2))]]) \<and>
   (files w2 ''data_SignalDetection.csv'' = Some (Text lines2) \<and>
    well_formed (Some CHR '','') 1 5 lines2 \<and> rows2 = split_rows (Some CHR '','') 1 lines2 \<longrightarrow>
      printed (trace (snd (DataReader_Problem5_1 pf w2))) = printed (trace w2) @
        [[Str ''  Shape of data: '', Shape [length rows2, 5]],
         [Arr [min 3 (length rows2)] (map Item (take 3 (map to_int64 (table_column pf rows2 0))))],
         [Arr [min 3 (length rows2)] (map Item (take 3 (table_column pf rows2 1)))],
         [Arr [min 3 (length rows2)] (map Item (take 3 (table_column pf rows2 2)))],
         [Arr [min 3 (length rows2)] (map Item (take 3 (table_column pf rows2 3)))],
         [Arr [min 3 (length rows2)] (map Item (take 3 (map to_int64 (table_column pf rows2 4))))]]) \<and>
   (files w3 ''data_DecayTimes.csv'' = Some (Text lines3) \<and>
    well_formed None 0 1 lines3 \<and> rows3 = split_rows None 0 lines3 \<longrightarrow>
      printed (trace (snd (DataReader_Problem5_2 pf w3))) = printed (trace w3) @
        [[Shape [length rows3]],
         [Arr [min 10 (length rows3)] (map Item (take 10 (table_column pf rows3 0)))]])"
proof (intro conjI impI)
  assume a: "files w1 ''data_LargestPopulation.csv'' = Some (Text lines1) \<and>
    well_formed (Some CHR '','') 1 3 lines1 \<and> rows1 = split_rows (Some CHR '','') 1 lines1 \<and>
    n1 = length rows1"
  then have f: "files w1 ''data_LargestPopulation.csv'' = Some (Text lines1)"
    and wf: "well_formed (Some CHR '','') 1 3 lines1"
    and rows: "rows1 = split_rows (Some CHR '','') 1 lines1"
    and n: "n1 = length rows1" by simp_all
  have r: "\<And>c. array2string [length rows1] (table_column pf rows1 c) =
      (if 1000 < n1
       then map Item (take 3 (table_column pf rows1 c)) @ [Dots] @
            map Item (drop (n1 - 3) (table_column pf rows1 c))
       else map Item (table_column pf rows1 c))"
    unfolding n by (rule array2string_1d) (simp add: table_column_def)
  show "printed (trace (snd (DataReader_Problem4_1 pf w1))) = printed (trace w1) @
        [[Shape [n1, 3]],
         [Arr [n1] (if 1000 < n1
                    then map Item (take 3 (table_column pf rows1 0)) @ [Dots] @
                         map Item (drop (n1 - 3) (table_column pf rows1 0))
                    else map Item (table_column pf rows1 0))],
         [Arr [n1] (if 1000 < n1
                    then map Item (take 3 (table_column pf rows1 1)) @ [Dots] @
                         map Item (drop (n1 - 3) (table_column pf rows1 1))
                    else map Item (table_column pf rows1 1))],
         [Arr [n1] (if 1000 < n1
                    then map Item (take 3 (table_column pf rows1 2)) @ [Dots] @
                         map Item (drop (n1 - 3) (table_column pf rows1 2))
                    else map Item (table_column pf rows1 2))]]"
    unfolding run41 [OF f wf order_refl rows] r by (simp add: printed_append n)
next
  assume a: "files w2 ''data_SignalDetection.csv'' = Some (Text lines2) \<and>
    well_formed (Some CHR '','') 1 5 lines2 \<and> rows2 = split_rows (Some CHR '','') 1 lines2"
  then have f: "files w2 ''data_SignalDetection.csv'' = Some (Text lines2)"
    and wf: "well_formed (Some CHR '','') 1 5 lines2"
    and rows: "rows2 = split_rows (Some CHR '','') 1 lines2" by simp_all
  show "printed (trace (snd (DataReader_Problem5_1 pf w2))) = printed (trace w2) @
        [[Str ''  Shape of data: '', Shape [length rows2, 5]],
         [Arr [min 3 (length rows2)] (map Item (take 3 (map to_int64 (table_column pf rows2 0))))],
         [Arr [min 3 (length rows2)] (map Item (take 3 (table_column pf rows2 1)))],
         [Arr [min 3 (length rows2)] (map Item (take 3 (table_column pf rows2 2)))],
         [Arr [min 3 (length rows2)] (map Item (take 3 (table_column pf rows2 3)))],
         [Arr [min 3 (length rows2)] (map Item (take 3 (map to_int64 (table_column pf rows2 4))))]]"
    unfolding run51 [OF f wf order_refl rows] by (simp add: printed_append)
next
  assume a: "files w3 ''data_DecayTimes.csv'' = Some (Text lines3) \<and>
    well_formed None 0 1 lines3 \<and> rows3 = split_rows None 0 lines3"
  then have f: "files w3 ''data_DecayTimes.csv'' = Some (Text lines3)"
    and wf: "well_formed None 0 1 lines3"
    and rows: "rows3 = split_rows None 0 lines3" by simp_all
  show "printed (trace (snd (DataReader_Problem5_2 pf w3))) = printed (trace w3) @
        [[Shape [length rows3]],
         [Arr [min 10 (length rows3)] (map Item (take 10 (table_column pf rows3 0)))]]"
    unfolding run52 [OF f wf rows] by (simp add: printed_append)
qed

theorem C2_printed_witness:
  "(files (disk [(''data_LargestPopulation.csv'', long_population_file)])
      ''data_LargestPopulation.csv'' = Some (Text long_population_file) \<and>
    well_formed (Some CHR '','') 1 3 long_population_file \<and>
    printed (trace (snd (DataReader_Problem4_1 example_float
        (disk [(''data_LargestPopulation.csv'', long_population_file)])))) =
      [[Shape [1001, 3]],
       [Arr [1001] (replicate 3 (Item (F (Finite 1960))) @ [Dots] @
                    replicate 3 (Item (F (Finite 1960))))],
       [Arr [1001] (replicate 3 (Item (F (Finite 445))) @ [Dots] @
                    replicate 3 (Item (F (Finite 445))))],
       [Arr [1001] (replicate 3 (Item (F (Finite 654))) @ [Dots] @
                    replicate 3 (Item (F (Finite 654))))]]) \<and>
   (files good_disk ''data_SignalDetection.csv'' = Some (Text signal_file) \<and>
    well_formed (Some CHR '','') 1 5 signal_file \<and>
    take 3 (printed (trace (snd (DataReader_Problem5_1 example_float good_disk)))) =
      [[Str ''  Shape of data: '', Shape [4, 5]],
       [Arr [3] [Item (I 0), Item (I 1), Item (I 2)]],
       [Arr [3] [Item (F (Finite 3)), Item (F (Finite 4)), Item (F (Finite 5))]]]) \<and>
   (files good_disk ''data_DecayTimes.csv'' = Some (Text decay_file) \<and>
    well_formed None 0 1 decay_file \<and>
    printed (trace (snd (DataReader_Problem5_2 example_float good_disk))) =
      [[Shape [12]],
       [Arr [10] (map (\<lambda>n. Item (F (Finite (of_nat n)))) [12, 7, 31, 2, 19, 5, 8, 44, 3, 10])]])"
proof -
  let ?long = "disk [(''data_LargestPopulation.csv'', long_population_file)]"
  have t: "printed (trace good_disk) = []" "printed (trace ?long) = []"
    by (simp_all add: good_disk_def disk_def)
  have fl: "files ?long ''data_LargestPopulation.csv'' = Some (Text long_population_file)"
    by (simp add: disk_def)
  note c2 = C2_printed [where ?w1.0 = ?long and ?lines1.0 = long_population_file
      and ?rows1.0 = "replicate 1001 [''1960'', ''445'', ''654'']" and ?n1.0 = 1001
      and pf = example_float
      and ?w2.0 = good_disk and ?lines2.0 = signal_file
      and ?rows2.0 = "split_rows (Some CHR '','') 1 signal_file"
      and ?w3.0 = good_disk and ?lines3.0 = decay_file
      and ?rows3.0 = "split_rows None 0 decay_file"]
  show ?thesis
    using c2 t fl long_file_well_formed long_file_rows long_file_columns good_disk_files
      example_files_well_formed example_files_rows example_columns
    by simp
qed


section \<open>Views and copies\<close>

text \<open>
  C5 (as the specification states it): every named column projection, \<^verbatim>\<open>index\<close> and
  \<^verbatim>\<open>type\<close> included, is a view sharing the storage of the loaded table and holds no
  copy of its own. In Problem 5.1 \<^verbatim>\<open>index\<close> and \<^verbatim>\<open>type\<close> come out of
  \<^verbatim>\<open>astype(int)\<close>, which allocates: on the example file the table is in buffer 0,
  \<^verbatim>\<open>index\<close> in buffer 1 and \<^verbatim>\<open>type\<close> in buffer 2.
\<close>

theorem C5_counterexample:
  "map_sum id (\<lambda>(data, index, P, R, freq, type). (base data, base index, base type))
     (fst (DataReader_Problem5_1 example_float good_disk)) = Inr (0, 1, 2)"
  by (simp add: DataReader_Problem5_1_def run_defs line_defs example_defs)

text \<open>
  C5 (amended): the projections taken by slicing alone (\<^verbatim>\<open>year\<close>, \<^verbatim>\<open>PopIndia\<close>,
  \<^verbatim>\<open>PopChina\<close>, \<^verbatim>\<open>P\<close>, \<^verbatim>\<open>R\<close>, \<^verbatim>\<open>freq\<close>) are views: each has one entry
  per row of the table and the table's buffer, and whatever the heap holds, its elements
  are exactly the table's elements in that column, row by row. \<^verbatim>\<open>index\<close> and
  \<^verbatim>\<open>type\<close> are not views: each has one entry per row too, but the entries are
  integers in a buffer of its own, and overwriting the table's buffer leaves them as they
  were.
\<close>

theorem C5_views:
  "(DataReader_Problem4_1 pf w = (Inr (data, year, PopIndia, PopChina), w') \<longrightarrow>
      (\<exists>n k. shape data = [n, k] \<and>
         shape year = [n] \<and> shape PopIndia = [n] \<and> shape PopChina = [n] \<and>
         base year = base data \<and> base PopIndia = base data \<and> base PopChina = base data \<and>
         (\<forall>h. elems h year = map (\<lambda>r. item h data [r, 0]) [0..<n] \<and>
              elems h PopIndia = map (\<lambda>r. item h data [r, 1]) [0..<n] \<and>
              elems h PopChina = map (\<lambda>r. item h data [r, 2]) [0..<n]))) \<and>
   (DataReader_Problem5_1 pf w2 = (Inr (data2, index, P, R, freq, type), w2') \<longrightarrow>
      (\<exists>n k. shape data2 = [n, k] \<and>
         shape P = [n] \<and> shape R = [n] \<and> shape freq = [n] \<and>
         shape index = [n] \<and> shape type = [n] \<and>
         base P = base data2 \<and> base R = base data2 \<and> base freq = base data2 \<and>
         base index \<noteq> base data2 \<and> base type \<noteq> base data2 \<and> base index \<noteq> base type \<and>
         (\<forall>h. elems h P = map (\<lambda>r. item h data2 [r, 1]) [0..<n] \<and>
              elems h R = map (\<lambda>r. item h data2 [r, 2]) [0..<n] \<and>
              elems h freq = map (\<lambda>r. item h data2 [r, 3]) [0..<n]) \<and>
         list_all is_float (elems (heap w2') data2) \<and>
         list_all is_int (elems (heap w2') index) \<and> list_all is_int (elems (heap w2') type) \<and>
         (\<forall>cells. elems ((heap w2')[base data2 := cells]) index = elems (heap w2') index \<and>
                  elems ((heap w2')[base data2 := cells]) type = elems (heap w2') type)))"
proof (intro conjI impI)
  assume "DataReader_Problem4_1 pf w = (Inr (data, year, PopIndia, PopChina), w')"
  from projections41 [OF this]
  show "\<exists>n k. shape data = [n, k] \<and>
         shape year = [n] \<and> shape PopIndia = [n] \<and> shape PopChina = [n] \<and>
         base year = base data \<and> base PopIndia = base data \<and> base PopChina = base data \<and>
         (\<forall>h. elems h year = map (\<lambda>r. item h data [r, 0]) [0..<n] \<and>
              elems h PopIndia = map (\<lambda>r. item h data [r, 1]) [0..<n] \<and>
              elems h PopChina = map (\<lambda>r. item h data [r, 2]) [0..<n])" .
next
  assume "DataReader_Problem5_1 pf w2 = (Inr (data2, index, P, R, freq, type), w2')"
  from projections51 [OF this] obtain n k where
    "shape data2 = [n, k]" "shape P = [n]" "shape R = [n]" "shape freq = [n]"
    "shape index = [n]" "shape type = [n]"
    "base P = base data2" "base R = base data2" "base freq = base data2"
    "base index \<noteq> base data2" "base type \<noteq> base data2" "base index \<noteq> base type"
    "\<forall>h. elems h P = map (\<lambda>r. item h data2 [r, 1]) [0..<n] \<and>
         elems h R = map (\<lambda>r. item h data2 [r, 2]) [0..<n] \<and>
         elems h freq = map (\<lambda>r. item h data2 [r, 3]) [0..<n]"
    "list_all is_float (elems (heap w2') data2)"
    "list_all is_int (elems (heap w2') index)" "list_all is_int (elems (heap w2') type)"
    "\<forall>cells. elems ((heap w2')[base data2 := cells]) index = elems (heap w2') index \<and>
            elems ((heap w2')[base data2 := cells]) type = elems (heap w2') type"
    by blast
  then show "\<exists>n k. shape data2 = [n, k] \<and>
         shape P = [n] \<and> shape R = [n] \<and> shape freq = [n] \<and>
         shape index = [n] \<and> shape type = [n] \<and>
         base P = base data2 \<and> base R = base data2 \<and> base freq = base data2 \<and>
         base index \<noteq> base data2 \<and> base type \<noteq> base data2 \<and> base index \<noteq> base type \<and>
         (\<forall>h. elems h P = map (\<lambda>r. item h data2 [r, 1]) [0..<n] \<and>
              elems h R = map (\<lambda>r. item h data2 [r, 2]) [0..<n] \<and>
              elems h freq = map (\<lambda>r. item h data2 [r, 3]) [0..<n]) \<and>
         list_all is_float (elems (heap w2') data2) \<and>
         list_all is_int (elems (heap w2') index) \<and> list_all is_int (elems (heap w2') type) \<and>
         (\<forall>cells. elems ((heap w2')[base data2 := cells]) index = elems (heap w2') index \<and>
                  elems ((heap w2')[base data2 := cells]) type = elems (heap w2') type)"
    by blast
qed

theorem C5_views_witness:
  "(\<exists>data year PopIndia PopChina w' n k.
      DataReader_Problem4_1 example_float good_disk = (Inr (data, year, PopIndia, PopChina), w') \<and>
      shape data = [n, k] \<and> shape year = [n] \<and> base year = base data \<and>
      elems (heap w') PopChina = map (\<lambda>r. item (heap w') data [r, 2]) [0..<n]) \<and>
   (\<exists>data index P R freq type w' n k.
      DataReader_Problem5_1 example_float good_disk = (Inr (data, index, P, R, freq, type), w') \<and>
      shape data = [n, k] \<and> shape freq = [n] \<and> shape index = [n] \<and>
      base freq = base data \<and> base index \<noteq> base data \<and> base type \<noteq> base data \<and>
      elems (heap w') freq = map (\<lambda>r. item (heap w') data [r, 3]) [0..<n] \<and>
      list_all is_int (elems (heap w') index))"
proof -
  from good_disk_completes(1) obtain data year PopIndia PopChina w' where
    r1: "DataReader_Problem4_1 example_float good_disk = (Inr (data, year, PopIndia, PopChina), w')"
    by blast
  from good_disk_completes(2) obtain data2 index P R freq type w2' where
    r2: "DataReader_Problem5_1 example_float good_disk = (Inr (data2, index, P, R, freq, type), w2')"
    by blast
  note c5 = C5_views [of example_float good_disk data year PopIndia PopChina w'
      good_disk data2 index P R freq type w2']
  from c5 r1 obtain n k where
    a: "shape data = [n, k]" "shape year = [n]" "base year = base data"
      "\<forall>h. elems h year = map (\<lambda>r. item h data [r, 0]) [0..<n] \<and>
           elems h PopIndia = map (\<lambda>r. item h data [r, 1]) [0..<n] \<and>
           elems h PopChina = map (\<lambda>r. item h data [r, 2]) [0..<n]"
    by blast
  from c5 r2 obtain n2 k2 where
    b: "shape data2 = [n2, k2]" "shape freq = [n2]" "shape index = [n2]"
      "base freq = base data2" "base index \<noteq> base data2" "base type \<noteq> base data2"
      "\<forall>h. elems h P = map (\<lambda>r. item h data2 [r, 1]) [0..<n2] \<and>
           elems h R = map (\<lambda>r. item h data2 [r, 2]) [0..<n2] \<and>
           elems h freq = map (\<lambda>r. item h data2 [r, 3]) [0..<n2]"
      "list_all is_int (elems (heap w2') index)"
    by blast
  from a(4) have a4: "elems (heap w') PopChina = map (\<lambda>r. item (heap w') data [r, 2]) [0..<n]"
    by blast
  from b(7) have b7: "elems (heap w2') freq = map (\<lambda>r. item (heap w2') data2 [r, 3]) [0..<n2]"
    by blast
  from r1 a(1,2,3) a4 have e1: "\<exists>data year PopIndia PopChina w' n k.
      DataReader_Problem4_1 example_float good_disk = (Inr (data, year, PopIndia, PopChina), w') \<and>
      shape data = [n, k] \<and> shape year = [n] \<and> base year = base data \<and>
      elems (heap w') PopChina = map (\<lambda>r. item (heap w') data [r, 2]) [0..<n]"
    by blast
  from r2 b(1-6) b7 b(8) have e2: "\<exists>data index P R freq type w' n k.
      DataReader_Problem5_1 example_float good_disk = (Inr (data, index, P, R, freq, type), w') \<and>
      shape data = [n, k] \<and> shape freq = [n] \<and> shape index = [n] \<and>
      base freq = base data \<and> base index \<noteq> base data \<and> base type \<noteq> base data \<and>
      elems (heap w') freq = map (\<lambda>r. item (heap w') data [r, 3]) [0..<n] \<and>
      list_all is_int (elems (heap w') index)"
    by blast
  from e1 e2 show ?thesis by (rule conjI)
qed

section \<open>The integer columns of Problem 5.1\<close>




section \<open>Missing and malformed input\<close>

text \<open>
  C3 (as the specification states it): on every missing or malformed input file each
  script stops with an error before it prints anything. A population file with two
  columns instead of three loads, the shape is printed, and only then does the slice
  \<^verbatim>\<open>data[:,2]\<close> raise; a population file whose fields are no numbers loads as NaN and
  the script runs to its end.
\<close>

theorem C3_counterexample:
  "fst (DataReader_Problem4_1 example_float (disk [(''data_LargestPopulation.csv'', two_column_file)]))
     = Inl IndexError \<and>
   printed (trace (snd (DataReader_Problem4_1 example_float
      (disk [(''data_LargestPopulation.csv'', two_column_file)])))) = [[Shape [2, 2]]] \<and>
   isl (fst (DataReader_Problem4_1 example_float
      (disk [(''data_LargestPopulation.csv'', text_file)]))) = False \<and>
   printed (trace (snd (DataReader_Problem4_1 example_float
      (disk [(''data_LargestPopulation.csv'', text_file)])))) =
     [[Shape [2, 3]], [Arr [2] [Item (F NaN), Item (F NaN)]],
      [Arr [2] [Item (F NaN), Item (F NaN)]], [Arr [2] [Item (F NaN), Item (F NaN)]]]"
  by (simp add: DataReader_Problem4_1_def run_defs line_defs example_defs)

text \<open>
  C3 (amended): when the input file is missing, or its data lines do not all have the
  same number of fields, loading fails, and each script ends with the loader's own error
  (\<^verbatim>\<open>FileNotFoundError\<close>, \<^verbatim>\<open>ValueError\<close>) before it has printed anything or
  allocated anything; there is no retry, fallback or translation of the error.
\<close>

theorem C3_load_failure:
  "(files w1 ''data_LargestPopulation.csv'' = None \<or>
    (\<exists>lines. files w1 ''data_LargestPopulation.csv'' = Some (Text lines) \<and>
             read_rows (Some CHR '','') 1 lines = Inl ValueError) \<longrightarrow>
      (\<exists>e w'. DataReader_Problem4_1 pf w1 = (Inl e, w') \<and>
         genfromtxt pf ''data_LargestPopulation.csv'' (Some CHR '','') 1 w1 = (Inl e, w') \<and>
         printed (trace w') = printed (trace w1) \<and> heap w' = heap w1 \<and> files w' = files w1 \<and>
         (e = FileNotFoundError \<longleftrightarrow> files w1 ''data_LargestPopulation.csv'' = None) \<and>
         (e = ValueError \<longleftrightarrow> files w1 ''data_LargestPopulation.csv'' \<noteq> None))) \<and>
   (files w2 ''data_SignalDetection.csv'' = None \<or>
    (\<exists>lines. files w2 ''data_SignalDetection.csv'' = Some (Text lines) \<and>
             read_rows (Some CHR '','') 1 lines = Inl ValueError) \<longrightarrow>
      (\<exists>e w'. DataReader_Problem5_1 pf w2 = (Inl e, w') \<and>
         genfromtxt pf ''data_SignalDetection.csv'' (Some CHR '','') 1 w2 = (Inl e, w') \<and>
         printed (trace w') = printed (trace w2) \<and> heap w' = heap w2 \<and> files w' = files w2 \<and>
         (e = FileNotFoundError \<longleftrightarrow> files w2 ''data_SignalDetection.csv'' = None) \<and>
         (e = ValueError \<longleftrightarrow> files w2 ''data_SignalDetection.csv'' \<noteq> None))) \<and>
   (files w3 ''data_DecayTimes.csv'' = None \<or>
    (\<exists>lines. files w3 ''data_DecayTimes.csv'' = Some (Text lines) \<and>
             read_rows None 0 lines = Inl ValueError) \<longrightarrow>
      (\<exists>e w'. DataReader_Problem5_2 pf w3 = (Inl e, w') \<and>
         genfromtxt pf ''data_DecayTimes.csv'' None 0 w3 = (Inl e, w') \<and>
         printed (trace w') = printed (trace w3) \<and> heap w' = heap w3 \<and> files w' = files w3 \<and>
         (e = FileNotFoundError \<longleftrightarrow> files w3 ''data_DecayTimes.csv'' = None) \<and>
         (e = ValueError \<longleftrightarrow> files w3 ''data_DecayTimes.csv'' \<noteq> None)))"
  unfolding DataReader_Problem4_1_def DataReader_Problem5_1_def DataReader_Problem5_2_def
  by (intro conjI impI load_failure)


lemma ragged_file_invalid: "read_rows (Some CHR '','') 1 ragged_file = Inl ValueError"
  by (simp add: read_rows_def nbcols_def line_defs example_defs)

theorem C3_load_failure_witness:
  "files (disk []) ''data_LargestPopulation.csv'' = None \<and>
   (\<exists>w'. DataReader_Problem4_1 example_float (disk []) = (Inl FileNotFoundError, w') \<and>
      printed (trace w') = []) \<and>
   files (disk [(''data_SignalDetection.csv'', ragged_file)]) ''data_SignalDetection.csv''
     = Some (Text ragged_file) \<and>
   read_rows (Some CHR '','') 1 ragged_file = Inl ValueError \<and>
   (\<exists>w'. DataReader_Problem5_1 example_float (disk [(''data_SignalDetection.csv'', ragged_file)])
      = (Inl ValueError, w') \<and> printed (trace w') = []) \<and>
   files (disk []) ''data_DecayTimes.csv'' = None \<and>
   (\<exists>w'. DataReader_Problem5_2 example_float (disk []) = (Inl FileNotFoundError, w') \<and>
      printed (trace w') = [])"
proof -
  have f: "files (disk []) ''data_LargestPopulation.csv'' = None"
    "files (disk []) ''data_DecayTimes.csv'' = None"
    "files (disk [(''data_SignalDetection.csv'', ragged_file)]) ''data_SignalDetection.csv''
       = Some (Text ragged_file)"
    "printed (trace (disk [])) = []"
    "printed (trace (disk [(''data_SignalDetection.csv'', ragged_file)])) = []"
    by (simp_all add: disk_def)
  from C3_load_failure [of "disk []" example_float
      "disk [(''data_SignalDetection.csv'', ragged_file)]" "disk []"] f ragged_file_invalid
  show ?thesis by auto
qed


section \<open>No mutation after load\<close>

text \<open>
  C7: the loaded table is never changed after the load. Every operation the scripts use
  after \<^verbatim>\<open>np.genfromtxt\<close> (column slice, row slice, \<^verbatim>\<open>astype(int)\<close>,
  \<^verbatim>\<open>print\<close>) leaves every existing buffer as it is; so in each script, however the
  run ends, the buffer of the table holds at the end what it held when
  \<^verbatim>\<open>np.genfromtxt\<close> returned, and the table has the same elements. No script writes
  a file: the files on disk after the run are the files before it.
\<close>

theorem C7_no_mutation:
  "(frame (column a k) \<and> frame (first_rows a n) \<and> frame (astype_int a) \<and>
    frame (print args) \<and> frame (print_array a)) \<and>
   (genfromtxt pf ''data_LargestPopulation.csv'' (Some CHR '','') 1 w = (Inr data, w1) \<and>
    DataReader_Problem4_1 pf w = (r, w') \<longrightarrow>
      prefix (heap w1) (heap w') \<and> heap w' ! base data = heap w1 ! base data \<and>
      elems (heap w') data = elems (heap w1) data \<and> files w' = files w) \<and>
   (genfromtxt pf ''data_SignalDetection.csv'' (Some CHR '','') 1 w = (Inr data2, w2) \<and>
    DataReader_Problem5_1 pf w = (r2, w2') \<longrightarrow>
      prefix (heap w2) (heap w2') \<and> heap w2' ! base data2 = heap w2 ! base data2 \<and>
      elems (heap w2') data2 = elems (heap w2) data2 \<and> files w2' = files w) \<and>
   (genfromtxt pf ''data_DecayTimes.csv'' None 0 w = (Inr data3, w3) \<and>
    DataReader_Problem5_2 pf w = (r3, w3') \<longrightarrow>
      prefix (heap w3) (heap w3') \<and> heap w3' ! base data3 = heap w3 ! base data3 \<and>
      elems (heap w3') data3 = elems (heap w3) data3 \<and> files w3' = files w) \<and>
   files (snd (DataReader_Problem4_1 pf w)) = files w \<and>
   files (snd (DataReader_Problem5_1 pf w)) = files w \<and>
   files (snd (DataReader_Problem5_2 pf w)) = files w"
proof (intro conjI impI)
  show "frame (column a k)" "frame (first_rows a n)" "frame (astype_int a)"
    "frame (print args)" "frame (print_array a)"
    by (rule frame_intros)+
next
  assume a: "genfromtxt pf ''data_LargestPopulation.csv'' (Some CHR '','') 1 w = (Inr data, w1) \<and>
    DataReader_Problem4_1 pf w = (r, w')"
  then have g: "genfromtxt pf ''data_LargestPopulation.csv'' (Some CHR '','') 1 w = (Inr data, w1)"
    and run: "DataReader_Problem4_1 pf w = (r, w')" by simp_all
  have "prefix (heap w1) (heap w') \<and> heap w' ! base data = heap w1 ! base data \<and>
      elems (heap w') data = elems (heap w1) data \<and> files w' = files w"
    by (rule table_kept [OF g _ run [unfolded DataReader_Problem4_1_def]]) (intro frame_intros)
  then show "prefix (heap w1) (heap w')" "heap w' ! base data = heap w1 ! base data"
      "elems (heap w') data = elems (heap w1) data" "files w' = files w" by simp_all
next
  assume a: "genfromtxt pf ''data_SignalDetection.csv'' (Some CHR '','') 1 w = (Inr data2, w2) \<and>
    DataReader_Problem5_1 pf w = (r2, w2')"
  then have g: "genfromtxt pf ''data_SignalDetection.csv'' (Some CHR '','') 1 w = (Inr data2, w2)"
    and run: "DataReader_Problem5_1 pf w = (r2, w2')" by simp_all
  have "prefix (heap w2) (heap w2') \<and> heap w2' ! base data2 = heap w2 ! base data2 \<and>
      elems (heap w2') data2 = elems (heap w2) data2 \<and> files w2' = files w"
    by (rule table_kept [OF g _ run [unfolded DataReader_Problem5_1_def]]) (intro frame_intros)
  then show "prefix (heap w2) (heap w2')" "heap w2' ! base data2 = heap w2 ! base data2"
      "elems (heap w2') data2 = elems (heap w2) data2" "files w2' = files w" by simp_all
next
  assume a: "genfromtxt pf ''data_DecayTimes.csv'' None 0 w = (Inr data3, w3) \<and>
    DataReader_Problem5_2 pf w = (r3, w3')"
  then have g: "genfromtxt pf ''data_DecayTimes.csv'' None 0 w = (Inr data3, w3)"
    and run: "DataReader_Problem5_2 pf w = (r3, w3')" by simp_all
  have "prefix (heap w3) (heap w3') \<and> heap w3' ! base data3 = heap w3 ! base data3 \<and>
      elems (heap w3') data3 = elems (heap w3) data3 \<and> files w3' = files w"
    by (rule table_kept [OF g _ run [unfolded DataReader_Problem5_2_def]]) (intro frame_intros)
  then show "prefix (heap w3) (heap w3')" "heap w3' ! base data3 = heap w3 ! base data3"
      "elems (heap w3') data3 = elems (heap w3) data3" "files w3' = files w" by simp_all
next
  show "files (snd (DataReader_Problem4_1 pf w)) = files w"
    using frameD [OF frame_scripts(1), of pf w] by (cases "DataReader_Problem4_1 pf w") simp
  show "files (snd (DataReader_Problem5_1 pf w)) = files w"
    using frameD [OF frame_scripts(2), of pf w] by (cases "DataReader_Problem5_1 pf w") simp
  show "files (snd (DataReader_Problem5_2 pf w)) = files w"
    using frameD [OF frame_scripts(3), of pf w] by (cases "DataReader_Problem5_2 pf w") simp
qed

theorem C7_no_mutation_witness:
  "(\<exists>data w1 r w'.
      genfromtxt example_float ''data_LargestPopulation.csv'' (Some CHR '','') 1 good_disk
        = (Inr data, w1) \<and>
      DataReader_Problem4_1 example_float good_disk = (r, w') \<and>
      elems (heap w') data = elems (heap w1) data \<and> files w' = files good_disk) \<and>
   (\<exists>data w1 r w'.
      genfromtxt example_float ''data_SignalDetection.csv'' (Some CHR '','') 1 good_disk
        = (Inr data, w1) \<and>
      DataReader_Problem5_1 example_float good_disk = (r, w') \<and>
      elems (heap w') data = elems (heap w1) data \<and> files w' = files good_disk) \<and>
   (\<exists>data w1 r w'.
      genfromtxt example_float ''data_DecayTimes.csv'' None 0 good_disk = (Inr data, w1) \<and>
      DataReader_Problem5_2 example_float good_disk = (r, w') \<and>
      elems (heap w') data = elems (heap w1) data \<and> files w' = files good_disk)"
proof -
  have "\<exists>data w1. genfromtxt example_float ''data_LargestPopulation.csv'' (Some CHR '','') 1
      good_disk = (Inr data, w1)"
    using genfromtxt_table [OF good_disk_files(1) example_files_well_formed(1), of example_float]
    by simp
  then obtain d1 w1 where g1: "genfromtxt example_float ''data_LargestPopulation.csv''
      (Some CHR '','') 1 good_disk = (Inr d1, w1)" by blast
  have "\<exists>data w1. genfromtxt example_float ''data_SignalDetection.csv'' (Some CHR '','') 1
      good_disk = (Inr data, w1)"
    using genfromtxt_table [OF good_disk_files(2) example_files_well_formed(2), of example_float]
    by simp
  then obtain d2 w2 where g2: "genfromtxt example_float ''data_SignalDetection.csv''
      (Some CHR '','') 1 good_disk = (Inr d2, w2)" by blast
  have "\<exists>data w1. genfromtxt example_float ''data_DecayTimes.csv'' None 0
      good_disk = (Inr data, w1)"
    using genfromtxt_vector [OF good_disk_files(3) example_files_well_formed(3), of example_float]
    by simp
  then obtain d3 w3 where g3: "genfromtxt example_float ''data_DecayTimes.csv''
      None 0 good_disk = (Inr d3, w3)" by blast
  obtain r1 w1' where r1: "DataReader_Problem4_1 example_float good_disk = (r1, w1')"
    by (cases "DataReader_Problem4_1 example_float good_disk")
  obtain r2 w2' where r2: "DataReader_Problem5_1 example_float good_disk = (r2, w2')"
    by (cases "DataReader_Problem5_1 example_float good_disk")
  obtain r3 w3' where r3: "DataReader_Problem5_2 example_float good_disk = (r3, w3')"
    by (cases "DataReader_Problem5_2 example_float good_disk")
  note c7 = C7_no_mutation [where pf = example_float and w = good_disk
      and data = d1 and ?w1.0 = w1 and r = r1 and w' = w1'
      and ?data2.0 = d2 and ?w2.0 = w2 and ?r2.0 = r2 and w2' = w2'
      and ?data3.0 = d3 and ?w3.0 = w3 and ?r3.0 = r3 and w3' = w3']
  from c7 g1 r1 have k1: "elems (heap w1') d1 = elems (heap w1) d1 \<and> files w1' = files good_disk"
    by simp
  from c7 g2 r2 have k2: "elems (heap w2') d2 = elems (heap w2) d2 \<and> files w2' = files good_disk"
    by simp
  from c7 g3 r3 have k3: "elems (heap w3') d3 = elems (heap w3) d3 \<and> files w3' = files good_disk"
    by simp
  from g1 r1 k1 have "\<exists>data w1 r w'.
      genfromtxt example_float ''data_LargestPopulation.csv'' (Some CHR '','') 1 good_disk
        = (Inr data, w1) \<and>
      DataReader_Problem4_1 example_float good_disk = (r, w') \<and>
      elems (heap w') data = elems (heap w1) data \<and> files w' = files good_disk" by blast
  moreover from g2 r2 k2 have "\<exists>data w1 r w'.
      genfromtxt example_float ''data_SignalDetection.csv'' (Some CHR '','') 1 good_disk
        = (Inr data, w1) \<and>
      DataReader_Problem5_1 example_float good_disk = (r, w') \<and>
      elems (heap w') data = elems (heap w1) data \<and> files w' = files good_disk" by blast
  moreover from g3 r3 k3 have "\<exists>data w1 r w'.
      genfromtxt example_float ''data_DecayTimes.csv'' None 0 good_disk = (Inr data, w1) \<and>
      DataReader_Problem5_2 example_float good_disk = (r, w') \<and>
      elems (heap w') data = elems (heap w1) data \<and> files w' = files good_disk" by blast
  ultimately show ?thesis by blast
qed



section \<open>The delimiter\<close>

text \<open>
  C4 (as the specification states it): all three scripts split the fields of a record at
  the comma. Problem 5.2 calls \<^verbatim>\<open>np.genfromtxt('data_DecayTimes.csv')\<close> with no
  \<^verbatim>\<open>delimiter\<close>: on a file whose lines are \<^verbatim>\<open>1,2\<close> and \<^verbatim>\<open>3,4\<close> each line
  stays one field, which is no number, and the loaded array is two NaN, not a table with
  two columns.
\<close>

theorem C4_counterexample:
  "split_rows None 0 comma_decay_file = [[''1,2''], [''3,4'']] \<and>
   map_sum id shape (fst (DataReader_Problem5_2 example_float
      (disk [(''data_DecayTimes.csv'', comma_decay_file)]))) = Inr [2] \<and>
   heap (snd (DataReader_Problem5_2 example_float
      (disk [(''data_DecayTimes.csv'', comma_decay_file)]))) = [[F NaN, F NaN]]"
  by (simp add: DataReader_Problem5_2_def run_defs line_defs example_defs)


text \<open>
  C4 (amended): Problems 4.1 and 5.1 parse their file as comma-separated text: the loaded
  table holds, row after row, the converted fields obtained by cutting every non-blank
  data line (comment and surrounding blanks removed) at each comma, so that the fields
  hold no comma and joined with commas give the line back. Problem 5.2 passes no
  delimiter: its lines are cut at runs of whitespace into non-empty fields without
  whitespace, a comma is not whitespace, and a line without whitespace is one field.
\<close>

theorem C4_delimiters:
  "(DataReader_Problem4_1 pf w1 = (Inr (data1, year, PopIndia, PopChina), w1') \<and>
    files w1 ''data_LargestPopulation.csv'' = Some (Text lines1) \<longrightarrow>
      elems (heap w1') data1 =
        table_cells pf (map (split_on CHR '','')
          (filter (\<lambda>l. l \<noteq> []) (map clean (drop 1 lines1))))) \<and>
   (DataReader_Problem5_1 pf w2 = (Inr (data2, index, P, R, freq, type), w2') \<and>
    files w2 ''data_SignalDetection.csv'' = Some (Text lines2) \<longrightarrow>
      elems (heap w2') data2 =
        table_cells pf (map (split_on CHR '','')
          (filter (\<lambda>l. l \<noteq> []) (map clean (drop 1 lines2))))) \<and>
   (DataReader_Problem5_2 pf w3 = (Inr data3, w3') \<and>
    files w3 ''data_DecayTimes.csv'' = Some (Text lines3) \<longrightarrow>
      elems (heap w3') data3 =
        table_cells pf (filter (\<lambda>values. values \<noteq> [])
          (map (\<lambda>l. split_ws [] (clean l)) lines3))) \<and>
   (\<forall>s. join_fields CHR '','' (split_on CHR '','' s) = s \<and>
        (\<forall>f\<in>set (split_on CHR '','' s). CHR '','' \<notin> set f)) \<and>
   (\<forall>s. (\<forall>f\<in>set (split_ws [] s). f \<noteq> [] \<and> (\<forall>c\<in>set f. \<not> is_space c)) \<and>
        concat (split_ws [] s) = filter (\<lambda>c. \<not> is_space c) s) \<and>
   \<not> is_space CHR '','' \<and>
   (\<forall>s. s \<noteq> [] \<and> (\<forall>c\<in>set s. \<not> is_space c) \<longrightarrow> split_ws [] s = [s])"
proof (intro conjI)
  show "DataReader_Problem4_1 pf w1 = (Inr (data1, year, PopIndia, PopChina), w1') \<and>
    files w1 ''data_LargestPopulation.csv'' = Some (Text lines1) \<longrightarrow>
      elems (heap w1') data1 =
        table_cells pf (map (split_on CHR '','')
          (filter (\<lambda>l. l \<noteq> []) (map clean (drop 1 lines1))))"
    using loaded41 [of pf w1 data1 year PopIndia PopChina w1' lines1]
    by (simp only: split_rows_comma) blast
  show "DataReader_Problem5_1 pf w2 = (Inr (data2, index, P, R, freq, type), w2') \<and>
    files w2 ''data_SignalDetection.csv'' = Some (Text lines2) \<longrightarrow>
      elems (heap w2') data2 =
        table_cells pf (map (split_on CHR '','')
          (filter (\<lambda>l. l \<noteq> []) (map clean (drop 1 lines2))))"
    using loaded51 [of pf w2 data2 index P R freq type w2' lines2]
    by (simp only: split_rows_comma) blast
  show "DataReader_Problem5_2 pf w3 = (Inr data3, w3') \<and>
    files w3 ''data_DecayTimes.csv'' = Some (Text lines3) \<longrightarrow>
      elems (heap w3') data3 =
        table_cells pf (filter (\<lambda>values. values \<noteq> [])
          (map (\<lambda>l. split_ws [] (clean l)) lines3))"
    using loaded52 [of pf w3 data3 w3' lines3]
    by (simp only: split_rows_whitespace drop_0) blast
  show "\<forall>s. join_fields CHR '','' (split_on CHR '','' s) = s \<and>
        (\<forall>f\<in>set (split_on CHR '','' s). CHR '','' \<notin> set f)"
    using split_on_join split_on_no_delimiter by blast
  show "\<forall>s. (\<forall>f\<in>set (split_ws [] s). f \<noteq> [] \<and> (\<forall>c\<in>set f. \<not> is_space c)) \<and>
        concat (split_ws [] s) = filter (\<lambda>c. \<not> is_space c) s"
  proof (intro allI conjI)
    fix s show "\<forall>f\<in>set (split_ws [] s). f \<noteq> [] \<and> (\<forall>c\<in>set f. \<not> is_space c)"
    proof
      fix f assume "f \<in> set (split_ws [] s)"
      from split_ws_fields [OF this] show "f \<noteq> [] \<and> (\<forall>c\<in>set f. \<not> is_space c)" by simp
    qed
  next
    fix s show "concat (split_ws [] s) = filter (\<lambda>c. \<not> is_space c) s"
      by (simp add: split_ws_concat)
  qed
  show "\<not> is_space CHR '',''" by (rule comma_not_space)
  show "\<forall>s. s \<noteq> [] \<and> (\<forall>c\<in>set s. \<not> is_space c) \<longrightarrow> split_ws [] s = [s]"
    by (simp add: split_ws_single)
qed

theorem C4_delimiters_witness:
  "(\<exists>data year PopIndia PopChina w'.
      DataReader_Problem4_1 example_float good_disk = (Inr (data, year, PopIndia, PopChina), w') \<and>
      files good_disk ''data_LargestPopulation.csv'' = Some (Text population_file) \<and>
      elems (heap w') data =
        table_cells example_float (map (split_on CHR '','')
          (filter (\<lambda>l. l \<noteq> []) (map clean (drop 1 population_file))))) \<and>
   (\<exists>data index P R freq type w'.
      DataReader_Problem5_1 example_float good_disk = (Inr (data, index, P, R, freq, type), w') \<and>
      files good_disk ''data_SignalDetection.csv'' = Some (Text signal_file) \<and>
      elems (heap w') data =
        table_cells example_float (map (split_on CHR '','')
          (filter (\<lambda>l. l \<noteq> []) (map clean (drop 1 signal_file))))) \<and>
   (\<exists>data w'.
      DataReader_Problem5_2 example_float good_disk = (Inr data, w') \<and>
      files good_disk ''data_DecayTimes.csv'' = Some (Text decay_file) \<and>
      elems (heap w') data =
        table_cells example_float (filter (\<lambda>values. values \<noteq> [])
          (map (\<lambda>l. split_ws [] (clean l)) decay_file))) \<and>
   (''1,2'' \<noteq> [] \<and> list_all (\<lambda>c. \<not> is_space c) ''1,2'' \<and> split_ws [] ''1,2'' = [''1,2''])"
proof -
  from good_disk_completes(1) obtain d1 y i c w1' where
    r1: "DataReader_Problem4_1 example_float good_disk = (Inr (d1, y, i, c), w1')" by blast
  from good_disk_completes(2) obtain d2 ix P R fr ty w2' where
    r2: "DataReader_Problem5_1 example_float good_disk = (Inr (d2, ix, P, R, fr, ty), w2')" by blast
  from good_disk_completes(3) obtain d3 w3' where
    r3: "DataReader_Problem5_2 example_float good_disk = (Inr d3, w3')" by blast
  note c4 = C4_delimiters [where pf = example_float and ?w1.0 = good_disk and ?data1.0 = d1
      and year = y and PopIndia = i and PopChina = c and w1' = w1' and ?lines1.0 = population_file
      and ?w2.0 = good_disk and ?data2.0 = d2 and index = ix and P = P and R = R and freq = fr
      and type = ty and w2' = w2' and ?lines2.0 = signal_file
      and ?w3.0 = good_disk and ?data3.0 = d3 and w3' = w3' and ?lines3.0 = decay_file]
  note p1 = c4 [THEN conjunct1]
  note p2 = c4 [THEN conjunct2, THEN conjunct1]
  note p3 = c4 [THEN conjunct2, THEN conjunct2, THEN conjunct1]
  note p7 = c4 [THEN conjunct2, THEN conjunct2, THEN conjunct2, THEN conjunct2,
      THEN conjunct2, THEN conjunct2, THEN spec, of "''1,2''"]
  have sp: "''1,2'' \<noteq> [] \<and> (\<forall>c\<in>set ''1,2''. \<not> is_space c)" by (simp add: is_space_def)
  from p7 sp have k4: "split_ws [] ''1,2'' = [''1,2'']" by (rule mp)
  from r1 good_disk_files(1) have "DataReader_Problem4_1 example_float good_disk =
      (Inr (d1, y, i, c), w1') \<and> files good_disk ''data_LargestPopulation.csv'' = Some (Text population_file)"
    by (rule conjI)
  with p1 have k1: "elems (heap w1') d1 =
        table_cells example_float (map (split_on CHR '','')
          (filter (\<lambda>l. l \<noteq> []) (map clean (drop 1 population_file))))" by (rule mp)
  from r2 good_disk_files(2) have "DataReader_Problem5_1 example_float good_disk =
      (Inr (d2, ix, P, R, fr, ty), w2') \<and> files good_disk ''data_SignalDetection.csv'' = Some (Text signal_file)"
    by (rule conjI)
  with p2 have k2: "elems (heap w2') d2 =
        table_cells example_float (map (split_on CHR '','')
          (filter (\<lambda>l. l \<noteq> []) (map clean (drop 1 signal_file))))" by (rule mp)
  from r3 good_disk_files(3) have "DataReader_Problem5_2 example_float good_disk =
      (Inr d3, w3') \<and> files good_disk ''data_DecayTimes.csv'' = Some (Text decay_file)"
    by (rule conjI)
  with p3 have k3: "elems (heap w3') d3 =
        table_cells example_float (filter (\<lambda>values. values \<noteq> [])
          (map (\<lambda>l. split_ws [] (clean l)) decay_file))" by (rule mp)
  from r1 k1 good_disk_files(1) have e1: "\<exists>data year PopIndia PopChina w'.
      DataReader_Problem4_1 example_float good_disk = (Inr (data, year, PopIndia, PopChina), w') \<and>
      files good_disk ''data_LargestPopulation.csv'' = Some (Text population_file) \<and>
      elems (heap w') data =
        table_cells example_float (map (split_on CHR '','')
          (filter (\<lambda>l. l \<noteq> []) (map clean (drop 1 population_file))))" by blast
  from r2 k2 good_disk_files(2) have e2: "\<exists>data index P R freq type w'.
      DataReader_Problem5_1 example_float good_disk = (Inr (data, index, P, R, freq, type), w') \<and>
      files good_disk ''data_SignalDetection.csv'' = Some (Text signal_file) \<and>
      elems (heap w') data =
        table_cells example_float (map (split_on CHR '','')
          (filter (\<lambda>l. l \<noteq> []) (map clean (drop 1 signal_file))))" by blast
  from r3 k3 good_disk_files(3) have e3: "\<exists>data w'.
      DataReader_Problem5_2 example_float good_disk = (Inr data, w') \<and>
      files good_disk ''data_DecayTimes.csv'' = Some (Text decay_file) \<and>
      elems (heap w') data =
        table_cells example_float (filter (\<lambda>values. values \<noteq> [])
          (map (\<lambda>l. split_ws [] (clean l)) decay_file))" by blast
  from sp k4 have e4: "''1,2'' \<noteq> [] \<and> list_all (\<lambda>c. \<not> is_space c) ''1,2'' \<and>
      split_ws [] ''1,2'' = [''1,2'']" by (simp add: list_all_iff)
  from e1 e2 e3 e4 show ?thesis by - ((rule conjI, assumption)+, assumption)
qed

section \<open>Termination and outcomes\<close>





section \<open>Determinism\<close>




end
